theory Spec2Isabelle
  imports Complex_Main
begin

section \<open>JavaScript values and strings\<close>

text \<open>
  A JavaScript string is modelled as a HOL \<open>string\<close>; the hashes, markers and keywords
  the routes compare are ASCII. A property that may be \<open>null\<close> or \<open>undefined\<close> is a
  \<open>string option\<close>, and the truthiness test \<open>if (x)\<close> of the source holds for a present,
  non-empty string.
\<close>

type_synonym hash = string
type_synonym path = string

definition truthy :: "string option \<Rightarrow> bool" where
  "truthy v = (case v of None \<Rightarrow> False | Some s \<Rightarrow> s \<noteq> [])"

text \<open>\<open>s.startsWith(p)\<close> and \<open>s.includes(p)\<close> (named \<open>str_includes\<close> here).\<close>

fun starts_with :: "string \<Rightarrow> string \<Rightarrow> bool" where
  "starts_with s [] = True"
| "starts_with [] (p # ps) = False"
| "starts_with (c # cs) (p # ps) = (c = p \<and> starts_with cs ps)"

fun str_includes :: "string \<Rightarrow> string \<Rightarrow> bool" where
  "str_includes [] p = (p = [])"
| "str_includes (c # cs) p = (starts_with (c # cs) p \<or> str_includes cs p)"

text \<open>The character class \<open>[a-fA-F0-9]\<close> of the regular expressions.\<close>

definition is_hex :: "char \<Rightarrow> bool" where
  "is_hex c = (c \<in> set ''0123456789abcdefABCDEF'')"

text \<open>
  \<open>/(0x[a-fA-F0-9]{64})/\<close> tried at the start of \<open>s\<close>: the two characters \<open>0x\<close> and
  then 64 hexadecimal digits; the capture is those 66 characters.
\<close>

definition hash_at :: "string \<Rightarrow> hash option" where
  "hash_at s =
     (if starts_with s ''0x'' \<and> length (take 64 (drop 2 s)) = 64
         \<and> list_all is_hex (take 64 (drop 2 s))
      then Some (take 66 s) else None)"

text \<open>\<open>s.match(/(0x[a-fA-F0-9]{64})/)\<close>: the leftmost position where the pattern matches.\<close>

fun find_hash :: "string \<Rightarrow> hash option" where
  "find_hash [] = None"
| "find_hash (c # cs) =
     (case hash_at (c # cs) of Some h \<Rightarrow> Some h | None \<Rightarrow> find_hash cs)"

text \<open>\<open>s.match(/verification_hash:(0x[a-fA-F0-9]{64})/)\<close>, capture group 1.\<close>

definition vhash_at :: "string \<Rightarrow> hash option" where
  "vhash_at s =
     (if starts_with s ''verification_hash:''
      then hash_at (drop (length ''verification_hash:'') s) else None)"

fun find_vhash :: "string \<Rightarrow> hash option" where
  "find_vhash [] = None"
| "find_vhash (c # cs) =
     (case vhash_at (c # cs) of Some h \<Rightarrow> Some h | None \<Rightarrow> find_vhash cs)"

text \<open>
  The boundary format of a hash, \<open>^0x[0-9a-fA-F]{64}$\<close>: what \<open>ethers.keccak256\<close>
  returns.
\<close>

definition wf_hash :: "hash \<Rightarrow> bool" where
  "wf_hash h = (length h = 66 \<and> starts_with h ''0x'' \<and> list_all is_hex (drop 2 h))"

text \<open>\<open>keywords.join(' ')\<close>, as pdf-lib's \<open>setKeywords\<close> stores a keyword array.\<close>

fun join_sp :: "string list \<Rightarrow> string" where
  "join_sp [] = []"
| "join_sp [k] = k"
| "join_sp (k # ks) = k @ '' '' @ join_sp ks"

section \<open>Files, PDF documents and the library boundary\<close>

text \<open>
  The routes read and write PDF files through pdf-lib. A PDF document is the record of
  what the routes set and read: the Subject and Keywords entries of the information
  dictionary, the Producer and Title, the number of pages, and the texts drawn on the
  pages. A file is its bytes together with the document \<open>PDFDocument.load\<close> builds from
  them (\<open>None\<close> when loading throws); what \<open>save\<close> writes loads back as the document
  saved. Encrypted PDFs, which only the watermark step loads (with
  \<open>ignoreEncryption\<close>), are outside the model.

  An entry of the information dictionary is missing, a string, or an object of another
  kind. \<open>getSubject()\<close> and \<open>getKeywords()\<close> return \<open>undefined\<close> for a missing entry
  and the text of a string, and throw on any other object; \<open>setSubject\<close> and
  \<open>setKeywords\<close> store strings.
\<close>

datatype info_entry = Missing | Text string | NotText

text \<open>What the getter returns; \<open>None\<close> when it throws.\<close>

definition get_text :: "info_entry \<Rightarrow> string option option" where
  "get_text e = (case e of Missing \<Rightarrow> Some None | Text t \<Rightarrow> Some (Some t) | NotText \<Rightarrow> None)"

record pdf_doc =
  pdf_subject :: info_entry
  pdf_keywords :: info_entry
  pdf_producer :: "string option"
  pdf_title :: "string option"
  pdf_pages :: nat
  pdf_overlays :: "string list"

record stored_file =
  file_bytes :: "nat list"
  file_pdf :: "pdf_doc option"

type_synonym filesystem = "path \<Rightarrow> stored_file option"

text \<open>
  Functions of the libraries the source calls, taken as parameters: Keccak-256 of a
  buffer (ethers), the serialisation of a PDF document (pdf-lib), \<open>path.extname\<close> and
  \<open>path.basename(name, path.extname(name))\<close> (Node), the \<open>LIKE\<close> operator of the
  database (value first, pattern second), and the image compositor (sharp) that
  stamps an image or throws.
\<close>

record lib =
  keccak256 :: "nat list \<Rightarrow> hash"
  pdf_save :: "pdf_doc \<Rightarrow> nat list"
  extname :: "path \<Rightarrow> string"
  basename_noext :: "string \<Rightarrow> string"
  sql_like :: "string \<Rightarrow> string \<Rightarrow> bool"
  image_stamp :: "stored_file \<Rightarrow> stored_file option"

text \<open>\<open>fs.readFile(p)\<close>: the file, or \<open>None\<close> when the read rejects, as it does for
  a \<open>null\<close> path and for the empty path.\<close>

definition read_file :: "filesystem \<Rightarrow> path option \<Rightarrow> stored_file option" where
  "read_file fs p = (case p of None \<Rightarrow> None | Some q \<Rightarrow> if q = [] then None else fs q)"

text \<open>\<open>fs.writeFile(p, data)\<close> and \<open>fs.copyFile\<close>: the file system with the file at \<open>p\<close>, or
  \<open>None\<close> when the write rejects, as it does for the empty path.\<close>

definition write_file :: "filesystem \<Rightarrow> path \<Rightarrow> stored_file \<Rightarrow> filesystem option" where
  "write_file fs p f = (if p = [] then None else Some (fs(p \<mapsto> f)))"

definition saved_pdf :: "lib \<Rightarrow> pdf_doc \<Rightarrow> stored_file" where
  "saved_pdf L d = \<lparr>file_bytes = pdf_save L d, file_pdf = Some d\<rparr>"

section \<open>The format extractor (routes/verification.js)\<close>

text \<open>
  \<open>extractHashFromPDF\<close>. The whole body stands in a \<open>try\<close>; the \<open>catch\<close> returns
  \<open>{hash: null, isWatermarked: false}\<close>, whether the read, the load or one of the two
  getters threw. The result is the pair (hash, isWatermarked).
\<close>

definition subject_hash :: "string option \<Rightarrow> hash option" where
  "subject_hash subject =
     (case subject of
        None \<Rightarrow> None
      | Some s \<Rightarrow>
          (let h0 = (if s \<noteq> [] \<and> starts_with s ''0x'' then Some s else None)
           in if s \<noteq> [] \<and> str_includes s ''Verified:''
              then (case find_hash s of Some h \<Rightarrow> Some h | None \<Rightarrow> h0)
              else h0))"

definition subject_marked :: "string option \<Rightarrow> bool" where
  "subject_marked subject =
     (case subject of None \<Rightarrow> False | Some s \<Rightarrow> s \<noteq> [] \<and> str_includes s ''Verified:'')"

definition keywords_hash :: "string option \<Rightarrow> hash option \<Rightarrow> hash option" where
  "keywords_hash keywords h =
     (case keywords of
        None \<Rightarrow> h
      | Some k \<Rightarrow>
          (if k = [] then h
           else (case find_vhash k of Some v \<Rightarrow> Some v | None \<Rightarrow> h)))"

definition keywords_marked :: "string option \<Rightarrow> bool" where
  "keywords_marked keywords =
     (case keywords of
        None \<Rightarrow> False
      | Some k \<Rightarrow> k \<noteq> [] \<and> str_includes k ''blockchain_verified:true'')"

definition extract_doc :: "pdf_doc \<Rightarrow> hash option \<times> bool" where
  "extract_doc d =
     (case get_text (pdf_subject d) of
        None \<Rightarrow> (None, False)
      | Some subject \<Rightarrow>
          (case get_text (pdf_keywords d) of
             None \<Rightarrow> (None, False)
           | Some keywords \<Rightarrow>
               (keywords_hash keywords (subject_hash subject),
                subject_marked subject \<or> keywords_marked keywords)))"

definition extractHashFromPDF :: "filesystem \<Rightarrow> path \<Rightarrow> hash option \<times> bool" where
  "extractHashFromPDF fs pdfPath =
     (case read_file fs (Some pdfPath) of
        None \<Rightarrow> (None, False)
      | Some f \<Rightarrow>
          (case file_pdf f of
             None \<Rightarrow> (None, False)
           | Some d \<Rightarrow> extract_doc d))"

section \<open>The format embedder and the watermark step (routes/documents.js)\<close>

text \<open>
  \<open>embedQRInPDF\<close>: loads the PDF, sets Subject, Keywords and Producer, embeds the QR
  image (which throws unless the buffer is a PNG), draws on the first page (which
  throws when there is none) and writes the result under \<open>uploads/processed\<close>.
  \<open>None\<close> is the rethrown error. The drawings are kept as the list of texts drawn.
\<close>

definition embedQRInPDF ::
  "lib \<Rightarrow> filesystem \<Rightarrow> path \<Rightarrow> bool \<Rightarrow> hash \<Rightarrow> (filesystem \<times> path) option" where
  "embedQRInPDF L fs pdfPath qr_is_png document_hash =
     (case read_file fs (Some pdfPath) of
        None \<Rightarrow> None
      | Some f \<Rightarrow>
          (case file_pdf f of
             None \<Rightarrow> None
           | Some d \<Rightarrow>
               if \<not> qr_is_png then None
               else if pdf_pages d = 0 then None
               else
                 (let d' = d\<lparr>pdf_subject := Text document_hash,
                              pdf_keywords := Text (join_sp [''verification_hash:'' @ document_hash]),
                              pdf_producer := Some ''Document Verification System'',
                              pdf_overlays := pdf_overlays d @
                                [''Scan to Verify'', ''Hash: '' @ take 20 document_hash @ ''...'']\<rparr>;
                      outputPath = ''uploads/processed/'' @ document_hash @ ''.pdf''
                  in (case write_file fs outputPath (saved_pdf L d') of
                        None \<Rightarrow> None
                      | Some fs' \<Rightarrow> Some (fs', outputPath)))))"

text \<open>
  The data of a watermark: the transaction hash and the block number the stamp shows.
  \<open>addWatermarkToPDF\<close> stamps every page, then overwrites Subject, Keywords,
  Producer and Title and writes the output file; \<open>None\<close> is the rethrown error.
\<close>

record watermark_data =
  wm_txHash :: string
  wm_block_number :: string

definition addWatermarkToPDF ::
  "lib \<Rightarrow> filesystem \<Rightarrow> path \<Rightarrow> path \<Rightarrow> watermark_data \<Rightarrow> (filesystem \<times> path) option" where
  "addWatermarkToPDF L fs inputPath outputPath wm =
     (case read_file fs (Some inputPath) of
        None \<Rightarrow> None
      | Some f \<Rightarrow>
          (case file_pdf f of
             None \<Rightarrow> None
           | Some d \<Rightarrow>
               (let d' = d\<lparr>pdf_subject := Text (''Blockchain Verified: '' @ wm_txHash wm),
                            pdf_keywords := Text (join_sp
                              [''verification_hash:'' @ wm_txHash wm,
                               ''block_number:'' @ wm_block_number wm,
                               ''blockchain_verified:true'',
                               ''watermarked:true'',
                               ''original_copy:stamped'']),
                            pdf_producer := Some ''Document Verification System - Original Stamped Copy'',
                            pdf_title := Some ''ORIGINAL - Blockchain Verified'',
                            pdf_overlays := pdf_overlays d @
                              (if pdf_pages d = 0 then [] else [''ORIGINAL'', ''COPY''])\<rparr>
                in (case write_file fs outputPath (saved_pdf L d') of
                      None \<Rightarrow> None
                    | Some fs' \<Rightarrow> Some (fs', outputPath)))))"

section \<open>The document store and the ledger\<close>

text \<open>
  A row of the \<open>documents\<close> table, with the columns the routes read and write. The
  \<open>verified\<close> column is a boolean the source only tests for truthiness, so \<open>NULL\<close>
  is \<open>False\<close>. The table is the list of its rows; \<open>result.rows[0]\<close> of a \<open>SELECT\<close>
  without \<open>ORDER BY\<close> is the first matching row of the list.
\<close>

record doc_row =
  document_hash :: hash
  student_name :: "string option"
  student_id :: "string option"
  program :: "string option"
  document_type :: "string option"
  date_issued :: "string option"
  original_file_name :: "string option"
  processed_file_path :: "path option"
  original_file_path :: "path option"
  watermarked_file_path :: "path option"
  content_hash :: "hash option"
  processed_content_hash :: "hash option"
  watermarked_content_hash :: "hash option"
  verified :: bool
  blockchain_tx_hash :: "string option"
  block_number :: "nat option"
  created_at :: int

type_synonym store = "doc_row list"

text \<open>\<open>SELECT * FROM documents WHERE document_hash = $1\<close>, \<open>rows[0]\<close>.\<close>

definition select_by_document_hash :: "store \<Rightarrow> hash \<Rightarrow> doc_row option" where
  "select_by_document_hash st h = find (\<lambda>r. document_hash r = h) st"

text \<open>
  \<open>SELECT * FROM documents WHERE content_hash = $1 OR processed_content_hash = $2
  OR watermarked_content_hash = $3\<close>, all three parameters the uploaded content hash.
\<close>

definition select_by_content_hash :: "store \<Rightarrow> hash \<Rightarrow> doc_row option" where
  "select_by_content_hash st h =
     find (\<lambda>r. content_hash r = Some h \<or> processed_content_hash r = Some h
               \<or> watermarked_content_hash r = Some h) st"

text \<open>
  \<open>ORDER BY created_at DESC LIMIT 1\<close>: a row of greatest \<open>created_at\<close>; among equal
  ones the model takes the first of the table.
\<close>

fun newest :: "doc_row list \<Rightarrow> doc_row option" where
  "newest [] = None"
| "newest (r # rs) =
     (case newest rs of
        None \<Rightarrow> Some r
      | Some m \<Rightarrow> if created_at r < created_at m then Some m else Some r)"

definition like_opt :: "lib \<Rightarrow> string option \<Rightarrow> string \<Rightarrow> bool" where
  "like_opt L v pat = (case v of None \<Rightarrow> False | Some s \<Rightarrow> sql_like L s pat)"

definition select_by_filename :: "lib \<Rightarrow> store \<Rightarrow> string \<Rightarrow> doc_row option" where
  "select_by_filename L st baseName =
     (let pat = ''%'' @ baseName @ ''%''
      in newest (filter (\<lambda>r. like_opt L (original_file_name r) pat
                           \<or> like_opt L (processed_file_path r) pat
                           \<or> like_opt L (watermarked_file_path r) pat) st))"

text \<open>
  The database calls of one request, by name (five of the upload route, two of the
  finalize route); \<open>db_fails\<close> of the environment says which of them reject (lost
  connection, malformed pattern).
\<close>

datatype db_call =
    ByEmbeddedHash | ByContentHash | ByFilename | UpdateHashes | Refetch
  | SelectForFinalize | UpdateVerified

text \<open>
  The blockchain service (services/BlockchainService.js) in front of the deployed
  contract: whether \<open>app.locals.blockchain\<close> is set, its \<open>initialized\<close> flag, whether
  it has a signer, whether a contract call rejects, and the registry the contract
  holds (hash and registration timestamp). The contract's functions take a
  \<open>bytes32\<close>: the encoder of the service's contract object rejects, before any call
  is made, an argument that is not \<open>0x\<close> followed by 64 hexadecimal digits.
\<close>

record chain =
  chain_present :: bool
  chain_initialized :: bool
  chain_has_signer :: bool
  chain_call_fails :: bool
  chain_ledger :: "(hash \<times> nat) list"

text \<open>
  Modelled from the spec: the contract is not in the repository. Its
  \<open>verifyDocument(hash)\<close> is the ledger's \<open>lookup(hash) -> {exists, timestamp}\<close>, and a
  mined \<open>registerDocument(hash)\<close> leaves the hash on the ledger.
\<close>

definition contract_lookup :: "(hash \<times> nat) list \<Rightarrow> hash \<Rightarrow> nat option" where
  "contract_lookup ledger h = map_of ledger h"

definition contract_register :: "(hash \<times> nat) list \<Rightarrow> hash \<Rightarrow> nat \<Rightarrow> (hash \<times> nat) list" where
  "contract_register ledger h t = (if map_of ledger h = None then (h, t) # ledger else ledger)"

text \<open>
  \<open>BlockchainService.verifyDocument\<close>: throws when the service is not initialized
  (\<open>None\<close>); an argument the encoder rejects and a rejected contract call are caught
  and give \<open>{success: false}\<close>, whose \<open>verified\<close> and \<open>document\<close> are undefined. The
  result is (verified, timestamp of the \<open>document\<close> object).
\<close>

definition bc_verifyDocument :: "chain \<Rightarrow> hash \<Rightarrow> (bool \<times> nat option) option" where
  "bc_verifyDocument ch h =
     (if \<not> chain_initialized ch then None
      else if \<not> wf_hash h \<or> chain_call_fails ch then Some (False, None)
      else (case contract_lookup (chain_ledger ch) h of
              Some t \<Rightarrow> Some (True, Some t)
            | None \<Rightarrow> Some (False, None)))"

text \<open>
  Step 5 of the upload route: \<open>blockchainVerified\<close> and \<open>blockchainData\<close> start as
  \<open>false\<close> and \<open>null\<close>, and the service is asked only when present and initialized; an
  exception of the call is logged and leaves both as they are.
\<close>

definition check_blockchain :: "chain \<Rightarrow> hash \<Rightarrow> bool \<times> nat option" where
  "check_blockchain ch h =
     (if chain_present ch \<and> chain_initialized ch
      then (case bc_verifyDocument ch h of None \<Rightarrow> (False, None) | Some r \<Rightarrow> r)
      else (False, None))"

section \<open>Backfilling the content hashes (updateDocumentHashes)\<close>

text \<open>
  One variant: when the hash is missing and the path is set, the file is read and
  hashed; a failed read is logged and skipped. \<open>None\<close> is no update for the variant.
  The watermarked variant calls \<open>fs.access\<close> before \<open>fs.readFile\<close>, both of which fail
  on the same paths here.
\<close>

definition backfill_variant ::
  "lib \<Rightarrow> filesystem \<Rightarrow> hash option \<Rightarrow> path option \<Rightarrow> hash option" where
  "backfill_variant L fs stored p =
     (if \<not> truthy stored \<and> truthy p
      then (case read_file fs p of
              None \<Rightarrow> None
            | Some f \<Rightarrow> Some (keccak256 L (file_bytes f)))
      else None)"

definition set_hashes ::
  "hash option \<Rightarrow> hash option \<Rightarrow> hash option \<Rightarrow> doc_row \<Rightarrow> doc_row" where
  "set_hashes p orig w r =
     r\<lparr>processed_content_hash := (case p of None \<Rightarrow> processed_content_hash r | Some h \<Rightarrow> Some h),
       content_hash := (case orig of None \<Rightarrow> content_hash r | Some h \<Rightarrow> Some h),
       watermarked_content_hash := (case w of None \<Rightarrow> watermarked_content_hash r | Some h \<Rightarrow> Some h)\<rparr>"

text \<open>
  \<open>updateDocumentHashes(document, db)\<close> mutates the row object it was given and, when
  there is at least one update, runs \<open>UPDATE documents SET ... WHERE document_hash = $n\<close>
  with the updated columns only. A rejected \<open>UPDATE\<close> is caught and logged. The
  result is the mutated object and the table.
\<close>

definition updateDocumentHashes ::
  "lib \<Rightarrow> filesystem \<Rightarrow> (db_call \<Rightarrow> bool) \<Rightarrow> doc_row \<Rightarrow> store \<Rightarrow> doc_row \<times> store" where
  "updateDocumentHashes L fs db_fails doc st =
     (let p = backfill_variant L fs (processed_content_hash doc) (processed_file_path doc);
          orig = backfill_variant L fs (content_hash doc) (original_file_path doc);
          w = backfill_variant L fs (watermarked_content_hash doc) (watermarked_file_path doc);
          doc' = set_hashes p orig w doc
      in if p = None \<and> orig = None \<and> w = None then (doc', st)
         else if db_fails UpdateHashes then (doc', st)
         else (doc', map (\<lambda>r. if document_hash r = document_hash doc
                                then set_hashes p orig w r else r) st))"

section \<open>The verification engine (routes/verification.js)\<close>

text \<open>
  The \<open>verificationDetails\<close> object. A property the source does not set is \<open>None\<close>.
  \<open>sizeDifference\<close> is \<open>None\<close> when it is \<open>NaN\<close> (no expected size). The free texts
  \<open>message\<close> and \<open>note\<close> are left out. \<open>sizeRatio\<close> is an exact rational: the sizes are
  buffer lengths below \<open>2^53\<close>, for which the double-precision quotient is below the
  doubles nearest to 0.01 and 0.05 exactly when the exact quotient is below 1/100 and
  1/20.
\<close>

datatype variant = Watermarked | Processed | Original

datatype document_kind = watermarked_verified | processed | original

datatype tamper_type =
    PAGE_MODIFICATION | WATERMARK_MISMATCH | WATERMARK_REMOVAL | MINOR_MODIFICATION
  | CONTENT_MODIFICATION | STRUCTURE_CORRUPTION | CONTENT_REPLACEMENT | MAJOR_MODIFICATION

record details =
  authentic :: bool
  tampered :: bool
  confidence :: "nat option"
  hashMatch :: "bool option"
  uploadedHash :: "hash option"
  expectedHash :: "hash option"
  documentType :: "document_kind option"
  tamperType :: "tamper_type option"
  uploadedSize :: "nat option"
  isWatermarked :: "bool option"
  expectedSize :: "nat option"
  expectedVersion :: "variant option"
  sizeMatch :: "bool option"
  sizeDifference :: "nat option"
  sizeRatio :: "rat option"
  hashAlgorithm :: "string option"
  blockchainVerified :: "bool option"
  blockchainTimestamp :: "nat option"
  failure :: bool

definition no_details :: details where
  "no_details =
     \<lparr>authentic = False, tampered = False, confidence = None, hashMatch = None,
      uploadedHash = None, expectedHash = None, documentType = None, tamperType = None,
      uploadedSize = None, isWatermarked = None, expectedSize = None,
      expectedVersion = None, sizeMatch = None, sizeDifference = None, sizeRatio = None,
      hashAlgorithm = None, blockchainVerified = None, blockchainTimestamp = None,
      failure = False\<rparr>"

text \<open>
  The comparison target of \<open>detectTamperingWithWatermarkAwareness\<close>: the first variant
  whose hash is set, in the order watermarked, processed, original. \<open>versionType\<close> is
  assigned only after the file of that variant was read; a failed read leaves it
  undefined and sets \<open>expectedSize = 0\<close>. With no hash at all the three stay undefined.
\<close>

definition expected_of ::
  "filesystem \<Rightarrow> hash option \<Rightarrow> path option \<Rightarrow> variant
     \<Rightarrow> hash option \<times> nat option \<times> variant option" where
  "expected_of fs h p v =
     (case read_file fs p of
        Some f \<Rightarrow> (h, Some (length (file_bytes f)), Some v)
      | None \<Rightarrow> (h, Some 0, None))"

definition expected_target ::
  "filesystem \<Rightarrow> doc_row \<Rightarrow> hash option \<times> nat option \<times> variant option" where
  "expected_target fs doc =
     (if truthy (watermarked_content_hash doc)
      then expected_of fs (watermarked_content_hash doc) (watermarked_file_path doc) Watermarked
      else if truthy (processed_content_hash doc)
      then expected_of fs (processed_content_hash doc) (processed_file_path doc) Processed
      else if truthy (content_hash doc)
      then expected_of fs (content_hash doc) (original_file_path doc) Original
      else (None, None, None))"

text \<open>\<open>Math.abs(uploadedSize - expectedSize)\<close> and the ratio, 1 unless \<open>expectedSize > 0\<close>.\<close>

definition size_difference :: "nat \<Rightarrow> nat option \<Rightarrow> nat option" where
  "size_difference up ex =
     (case ex of None \<Rightarrow> None | Some e \<Rightarrow> Some (nat \<bar>int up - int e\<bar>))"

definition size_ratio :: "nat \<Rightarrow> nat option \<Rightarrow> rat" where
  "size_ratio up ex =
     (case ex of
        None \<Rightarrow> 1
      | Some e \<Rightarrow> if 0 < e then of_nat (nat \<bar>int up - int e\<bar>) / of_nat e else 1)"

text \<open>
  The page count of the expected PDF, loaded only for the watermarked variant and
  only when its path is set; a file that cannot be read or loaded leaves it undefined.
\<close>

definition expected_page_count :: "filesystem \<Rightarrow> doc_row \<Rightarrow> variant option \<Rightarrow> nat option" where
  "expected_page_count fs doc versionType =
     (if versionType = Some Watermarked \<and> truthy (watermarked_file_path doc)
      then (case read_file fs (watermarked_file_path doc) of
              None \<Rightarrow> None
            | Some f \<Rightarrow> (case file_pdf f of None \<Rightarrow> None | Some d \<Rightarrow> Some (pdf_pages d)))
      else None)"

text \<open>The branch taken: the tamper type and its confidence.\<close>

definition classify_pdf ::
  "pdf_doc option \<Rightarrow> nat option \<Rightarrow> bool \<Rightarrow> variant option \<Rightarrow> rat \<Rightarrow> tamper_type \<times> nat" where
  "classify_pdf uploadedPdf expectedPageCount isWm versionType ratio =
     (case uploadedPdf of
        None \<Rightarrow> (STRUCTURE_CORRUPTION, 100)
      | Some up \<Rightarrow>
          if (case expectedPageCount of None \<Rightarrow> False
              | Some n \<Rightarrow> n \<noteq> 0 \<and> pdf_pages up \<noteq> n)
          then (PAGE_MODIFICATION, 100)
          else if isWm \<and> versionType \<noteq> Some Watermarked then (WATERMARK_MISMATCH, 85)
          else if \<not> isWm \<and> versionType = Some Watermarked then (WATERMARK_REMOVAL, 95)
          else if ratio < 1 / 100 then (MINOR_MODIFICATION, 70)
          else (CONTENT_MODIFICATION, 95))"

definition classify_other :: "nat option \<Rightarrow> rat \<Rightarrow> tamper_type \<times> nat" where
  "classify_other difference ratio =
     (if difference = Some 0 then (CONTENT_REPLACEMENT, 100)
      else if ratio < 5 / 100 then (MINOR_MODIFICATION, 85)
      else (MAJOR_MODIFICATION, 100))"

definition detectTamperingWithWatermarkAwareness ::
  "filesystem \<Rightarrow> stored_file \<Rightarrow> hash \<Rightarrow> doc_row \<Rightarrow> string \<Rightarrow> bool \<Rightarrow> details" where
  "detectTamperingWithWatermarkAwareness fs uploadedBuffer uHash doc mimeType isWm =
     (let upSize = length (file_bytes uploadedBuffer);
          (exHash, exSize, versionType) = expected_target fs doc;
          difference = size_difference upSize exSize;
          ratio = size_ratio upSize exSize;
          (tt, conf) =
            (if mimeType = ''application/pdf''
             then classify_pdf (file_pdf uploadedBuffer)
                    (expected_page_count fs doc versionType) isWm versionType ratio
             else classify_other difference ratio)
      in no_details\<lparr>authentic := False, tampered := True, uploadedHash := Some uHash,
           hashMatch := Some False, uploadedSize := Some upSize, isWatermarked := Some isWm,
           expectedHash := exHash, expectedSize := exSize, expectedVersion := versionType,
           sizeMatch := Some (difference = Some 0), sizeDifference := difference,
           sizeRatio := Some ratio, tamperType := Some tt, confidence := Some conf,
           hashAlgorithm := Some ''Keccak-256 (Ethereum standard)''\<rparr>)"

text \<open>The object of an exact match.\<close>

definition match_details :: "hash \<Rightarrow> hash option \<Rightarrow> document_kind \<Rightarrow> details" where
  "match_details uHash expected kind =
     no_details\<lparr>authentic := True, tampered := False, confidence := Some 100,
       hashMatch := Some True, uploadedHash := Some uHash, expectedHash := expected,
       documentType := Some kind\<rparr>"

text \<open>
  \<open>verifyDocumentIntegrity\<close>: the watermarked hash is compared first and only for a
  row whose \<open>verified\<close> is set, then the processed hash, then the original one; a
  hash that is not set matches nothing.
\<close>

definition verifyDocumentIntegrity ::
  "filesystem \<Rightarrow> stored_file \<Rightarrow> hash \<Rightarrow> doc_row \<Rightarrow> string \<Rightarrow> bool \<Rightarrow> details" where
  "verifyDocumentIntegrity fs uploadedBuffer uHash doc mimeType isWm =
     (if verified doc \<and> truthy (watermarked_content_hash doc)
         \<and> Some uHash = watermarked_content_hash doc
      then match_details uHash (watermarked_content_hash doc) watermarked_verified
      else if truthy (processed_content_hash doc) \<and> Some uHash = processed_content_hash doc
      then match_details uHash (processed_content_hash doc) processed
      else if truthy (content_hash doc) \<and> Some uHash = content_hash doc
      then match_details uHash (content_hash doc) original
      else detectTamperingWithWatermarkAwareness fs uploadedBuffer uHash doc mimeType isWm)"

section \<open>The upload route, POST /api/verify/upload\<close>

text \<open>
  The uploaded file as multer hands it over, and what the route reaches outside the
  table: the file system, the blockchain service and the fate of each database call.
  The deletion of the temporary upload is not modelled.
\<close>

record upload_file =
  originalname :: string
  mimetype :: string
  upload_path :: path

record env =
  env_fs :: filesystem
  env_chain :: chain
  env_db_fails :: "db_call \<Rightarrow> bool"

text \<open>
  \<open>/[_-]?0x[a-fA-F0-9]+/\<close> tried at the start of \<open>s\<close>: an optional \<open>_\<close> or \<open>-\<close>, then
  \<open>0x\<close>, then the longest run of hexadecimal digits, at least one. The result is what
  follows the match.
\<close>

definition hex_fragment_at :: "string \<Rightarrow> string option" where
  "hex_fragment_at s =
     (let t = (case s of
                 [] \<Rightarrow> s
               | c # cs \<Rightarrow> if c = CHR ''_'' \<or> c = CHR ''-'' then cs else s)
      in if starts_with t ''0x'' \<and> (case drop 2 t of [] \<Rightarrow> False | d # ds \<Rightarrow> is_hex d)
         then Some (dropWhile is_hex (drop 2 t)) else None)"

text \<open>\<open>baseName.replace(/[_-]?0x[a-fA-F0-9]+/, '')\<close>: the leftmost match is removed.\<close>

fun strip_hex_fragment :: "string \<Rightarrow> string" where
  "strip_hex_fragment [] = []"
| "strip_hex_fragment (c # cs) =
     (case hex_fragment_at (c # cs) of
        Some rest \<Rightarrow> rest
      | None \<Rightarrow> c # strip_hex_fragment cs)"

text \<open>\<open>baseName.replace(/^Verified_/, '')\<close>.\<close>

definition strip_verified_prefix :: "string \<Rightarrow> string" where
  "strip_verified_prefix s =
     (if starts_with s ''Verified_'' then drop (length ''Verified_'') s else s)"

definition fuzzy_base_name :: "lib \<Rightarrow> string \<Rightarrow> string" where
  "fuzzy_base_name L name =
     strip_verified_prefix (strip_hex_fragment (basename_noext L name))"

text \<open>
  Step 4, the resolution of the row. \<open>None\<close> is a rejected query, which the route's
  outer \<open>catch\<close> turns into status 500; \<open>Some None\<close> is no row.
\<close>

definition by_embedded_hash ::
  "(db_call \<Rightarrow> bool) \<Rightarrow> store \<Rightarrow> hash option \<Rightarrow> doc_row option option" where
  "by_embedded_hash db_fails st embeddedHash =
     (case embeddedHash of
        None \<Rightarrow> Some None
      | Some e \<Rightarrow>
          if e = [] then Some None
          else if db_fails ByEmbeddedHash then None
          else Some (select_by_document_hash st e))"

definition by_content_hash ::
  "(db_call \<Rightarrow> bool) \<Rightarrow> store \<Rightarrow> hash \<Rightarrow> doc_row option option" where
  "by_content_hash db_fails st h =
     (if db_fails ByContentHash then None else Some (select_by_content_hash st h))"

definition by_filename ::
  "lib \<Rightarrow> (db_call \<Rightarrow> bool) \<Rightarrow> store \<Rightarrow> string \<Rightarrow> doc_row option option" where
  "by_filename L db_fails st name =
     (if db_fails ByFilename then None
      else Some (select_by_filename L st (fuzzy_base_name L name)))"

definition resolve_document ::
  "lib \<Rightarrow> (db_call \<Rightarrow> bool) \<Rightarrow> store \<Rightarrow> string \<Rightarrow> hash option \<Rightarrow> hash
     \<Rightarrow> doc_row option option" where
  "resolve_document L db_fails st name embeddedHash uploadedContentHash =
     (case by_embedded_hash db_fails st embeddedHash of
        None \<Rightarrow> None
      | Some (Some d) \<Rightarrow> Some (Some d)
      | Some None \<Rightarrow>
          (case by_content_hash db_fails st uploadedContentHash of
             None \<Rightarrow> None
           | Some (Some d) \<Rightarrow> Some (Some d)
           | Some None \<Rightarrow> by_filename L db_fails st name))"

text \<open>The JSON replies of the route.\<close>

datatype verdict = NOT_FOUND | NOT_VERIFIED | AUTHENTIC | TAMPERED

record doc_info =
  documentHash :: hash
  studentName :: "string option"
  studentId :: "string option"
  info_program :: "string option"
  info_documentType :: "string option"
  dateIssued :: "string option"
  originalFileName :: "string option"
  createdAt :: int
  info_verified :: bool
  blockchainTxHash :: "string option"
  blockNumber :: "nat option"
  hasWatermark :: bool

record reply =
  http_status :: nat
  verificationStatus :: "verdict option"
  integrity :: "details option"
  reported :: "doc_info option"
  verificationMethod :: "string option"
  uploadedFileType :: "string option"

definition plain_reply :: "nat \<Rightarrow> reply" where
  "plain_reply code =
     \<lparr>http_status = code, verificationStatus = None, integrity = None, reported = None,
      verificationMethod = None, uploadedFileType = None\<rparr>"

definition info_of :: "doc_row \<Rightarrow> doc_info" where
  "info_of d =
     \<lparr>documentHash = document_hash d, studentName = student_name d,
      studentId = student_id d, info_program = program d,
      info_documentType = document_type d, dateIssued = date_issued d,
      originalFileName = original_file_name d, createdAt = created_at d,
      info_verified = verified d, blockchainTxHash = blockchain_tx_hash d,
      blockNumber = block_number d,
      hasWatermark = (verified d \<and> truthy (watermarked_file_path d))\<rparr>"

definition not_found_reply :: reply where
  "not_found_reply = (plain_reply 200)\<lparr>verificationStatus := Some NOT_FOUND\<rparr>"

definition not_verified_reply :: "doc_row \<Rightarrow> reply" where
  "not_verified_reply d =
     (plain_reply 200)
       \<lparr>verificationStatus := Some NOT_VERIFIED,
        integrity := Some (no_details\<lparr>authentic := False, tampered := False,
                             confidence := Some 100, blockchainVerified := Some False\<rparr>),
        reported := Some ((info_of d)\<lparr>info_verified := False, blockchainTxHash := None,
                             blockNumber := None, hasWatermark := False\<rparr>),
        verificationMethod := Some ''database_only''\<rparr>"

text \<open>The object the inner \<open>catch\<close> of the comparison builds.\<close>

definition failure_details :: details where
  "failure_details =
     no_details\<lparr>authentic := False, tampered := True, blockchainVerified := Some True,
       failure := True\<rparr>"

text \<open>
  The comparison of a ledger-confirmed row: backfill, read the row again, compare.
  A rejected re-read, a row that is gone, and \<open>blockchainData\<close> being \<open>null\<close> when its
  timestamp is read all throw into the inner \<open>catch\<close>.
\<close>

definition integrity_phase ::
  "lib \<Rightarrow> env \<Rightarrow> store \<Rightarrow> stored_file \<Rightarrow> hash \<Rightarrow> doc_row \<Rightarrow> string \<Rightarrow> bool \<Rightarrow> nat option
     \<Rightarrow> doc_row \<times> store \<times> details" where
  "integrity_phase L E st uploadedBuffer uHash doc mimeType isWm blockchainData =
     (let (doc', st') = updateDocumentHashes L (env_fs E) (env_db_fails E) doc st
      in if env_db_fails E Refetch then (doc', st', failure_details)
         else (case select_by_document_hash st' (document_hash doc') of
                 None \<Rightarrow> (doc', st', failure_details)
               | Some updatedDocument \<Rightarrow>
                   (case blockchainData of
                      None \<Rightarrow> (doc', st', failure_details)
                    | Some ts \<Rightarrow>
                        (doc', st',
                         (verifyDocumentIntegrity (env_fs E) uploadedBuffer uHash
                            updatedDocument mimeType isWm)
                           \<lparr>blockchainVerified := Some True,
                            blockchainTimestamp := Some ts\<rparr>))))"

definition verdict_reply :: "doc_row \<Rightarrow> details \<Rightarrow> hash option \<Rightarrow> bool \<Rightarrow> reply" where
  "verdict_reply d det embeddedHash isWm =
     (plain_reply 200)
       \<lparr>verificationStatus := Some (if authentic det then AUTHENTIC else TAMPERED),
        integrity := Some det,
        reported := Some (info_of d),
        verificationMethod :=
          Some (if truthy embeddedHash then ''document_hash_extraction''
                else ''content_hash_match''),
        uploadedFileType := Some (if isWm then ''watermarked'' else ''standard'')\<rparr>"

text \<open>Step 3: the embedded hash and the watermark flag, read from PDF uploads only.\<close>

definition extract_upload :: "filesystem \<Rightarrow> upload_file \<Rightarrow> hash option \<times> bool" where
  "extract_upload fs upl =
     (if mimetype upl = ''application/pdf''
      then extractHashFromPDF fs (upload_path upl)
      else (None, False))"

text \<open>
  Step 5 onwards, for the resolved row: the ledger is asked first; without its
  confirmation the route answers \<open>NOT_VERIFIED\<close> at once, otherwise it runs the
  comparison.
\<close>

definition verify_resolved ::
  "lib \<Rightarrow> env \<Rightarrow> store \<Rightarrow> upload_file \<Rightarrow> stored_file \<Rightarrow> hash option \<Rightarrow> bool \<Rightarrow> doc_row
     \<Rightarrow> store \<times> reply" where
  "verify_resolved L E st upl uploadedBuffer embeddedHash isWm originalDocument =
     (let (blockchainVerified, blockchainData) =
            check_blockchain (env_chain E) (document_hash originalDocument)
      in if \<not> blockchainVerified
         then (st, not_verified_reply originalDocument)
         else
           (let (doc', st', det) =
                  integrity_phase L E st uploadedBuffer
                    (keccak256 L (file_bytes uploadedBuffer))
                    originalDocument (mimetype upl) isWm blockchainData
            in (st', verdict_reply doc' det embeddedHash isWm)))"

text \<open>The handler: the table after the request and the reply sent.\<close>

definition upload :: "lib \<Rightarrow> env \<Rightarrow> store \<Rightarrow> upload_file option \<Rightarrow> store \<times> reply" where
  "upload L E st req_file =
     (case req_file of
        None \<Rightarrow> (st, plain_reply 400)
      | Some upl \<Rightarrow>
          (case read_file (env_fs E) (Some (upload_path upl)) of
             None \<Rightarrow> (st, plain_reply 500)
           | Some uploadedBuffer \<Rightarrow>
               (let (embeddedHash, isWm) = extract_upload (env_fs E) upl
                in case resolve_document L (env_db_fails E) st (originalname upl)
                          embeddedHash (keccak256 L (file_bytes uploadedBuffer)) of
                     None \<Rightarrow> (st, plain_reply 500)
                   | Some None \<Rightarrow> (st, not_found_reply)
                   | Some (Some originalDocument) \<Rightarrow>
                       verify_resolved L E st upl uploadedBuffer embeddedHash isWm
                         originalDocument)))"

section \<open>Registration and watermarking, POST /api/documents/finalize\<close>

text \<open>Decimal rendering of a number in a template literal.\<close>

definition digit_char :: "nat \<Rightarrow> char" where
  "digit_char d = ''0123456789'' ! (d mod 10)"

function nat_to_string :: "nat \<Rightarrow> string" where
  "nat_to_string n =
     (if n < 10 then [digit_char n] else nat_to_string (n div 10) @ [digit_char (n mod 10)])"
  by pat_completeness auto
termination
  by (relation "measure id") auto

text \<open>\<open>toLowerCase\<close> on the ASCII letters of a file extension.\<close>

definition lower_char :: "char \<Rightarrow> char" where
  "lower_char c =
     (let n = (of_char c :: nat) in if 65 \<le> n \<and> n \<le> 90 then char_of (n + 32) else c)"

text \<open>
  \<open>createWatermarkedDocument\<close>: the processed file must be accessible; the output
  path is \<open>uploads/watermarked/<hash>_verified<ext>\<close>; a PDF is stamped by
  \<open>addWatermarkToPDF\<close>, an image by the compositor, any other file is copied.
  \<open>None\<close> is the rethrown error.
\<close>

definition createWatermarkedDocument ::
  "lib \<Rightarrow> filesystem \<Rightarrow> path option \<Rightarrow> hash \<Rightarrow> watermark_data
     \<Rightarrow> (filesystem \<times> path) option" where
  "createWatermarkedDocument L fs processed_path doc_hash wm =
     (case read_file fs processed_path of
        None \<Rightarrow> None
      | Some f \<Rightarrow>
          (let inputPath = (case processed_path of None \<Rightarrow> [] | Some q \<Rightarrow> q);
               ext = map lower_char (extname L inputPath);
               watermarkedPath = ''uploads/watermarked/'' @ doc_hash @ ''_verified'' @ ext
           in if ext = ''.pdf'' then addWatermarkToPDF L fs inputPath watermarkedPath wm
              else if ext = ''.png'' \<or> ext = ''.jpg'' \<or> ext = ''.jpeg''
              then (case image_stamp L f of
                      None \<Rightarrow> None
                    | Some g \<Rightarrow>
                        (case write_file fs watermarkedPath g of
                           None \<Rightarrow> None
                         | Some fs' \<Rightarrow> Some (fs', watermarkedPath)))
              else (case write_file fs watermarkedPath f of
                      None \<Rightarrow> None
                    | Some fs' \<Rightarrow> Some (fs', watermarkedPath))))"

text \<open>
  What a mined transaction reports, and the values the simulation branch draws from
  \<open>Math.random\<close>.
\<close>

record chance =
  mined_tx :: string
  mined_time :: nat
  sim_digits :: string
  sim_block :: nat

text \<open>
  \<open>BlockchainService.registerDocument({documentContent: h})\<close>: throws without
  initialization or signer (\<open>None\<close>); content that starts with \<open>0x\<close> is taken as the
  hash, other content is hashed; empty content (with no \<open>documentHash\<close> property
  either), a hash the encoder rejects and a rejected transaction are caught and give
  \<open>{success: false}\<close> (no transaction hash).
\<close>

definition bc_registerDocument ::
  "lib \<Rightarrow> chain \<Rightarrow> chance \<Rightarrow> string \<Rightarrow> (chain \<times> string option) option" where
  "bc_registerDocument L ch ce documentContent =
     (if \<not> chain_initialized ch \<or> \<not> chain_has_signer ch then None
      else if documentContent = [] then Some (ch, None)
      else
        (let documentHash =
               (if starts_with documentContent ''0x'' then documentContent
                else keccak256 L (map of_char documentContent))
         in if \<not> wf_hash documentHash \<or> chain_call_fails ch then Some (ch, None)
            else Some (ch\<lparr>chain_ledger :=
                            contract_register (chain_ledger ch) documentHash (mined_time ce)\<rparr>,
                       Some (mined_tx ce))))"

record world =
  w_store :: store
  w_fs :: filesystem
  w_chain :: chain

record fin_reply =
  fin_status :: nat
  fin_verified :: bool
  fin_transactionHash :: "string option"
  fin_watermarkedFile :: "path option"

definition fin_error :: "nat \<Rightarrow> fin_reply" where
  "fin_error code =
     \<lparr>fin_status = code, fin_verified = False, fin_transactionHash = None,
      fin_watermarkedFile = None\<rparr>"

text \<open>
  The two \<open>UPDATE\<close> statements of the registered branch: with and without the
  watermarked path. \<open>blockchainResult.block_number\<close> is not a property of the
  service's result, so the column receives \<open>NULL\<close>.
\<close>

definition mark_verified :: "string \<Rightarrow> path option \<Rightarrow> hash \<Rightarrow> store \<Rightarrow> store" where
  "mark_verified tx wpath h st =
     map (\<lambda>r. if document_hash r = h
              then (case wpath of
                      Some p \<Rightarrow> r\<lparr>blockchain_tx_hash := Some tx, block_number := None,
                                  verified := True, watermarked_file_path := Some p\<rparr>
                    | None \<Rightarrow> r\<lparr>blockchain_tx_hash := Some tx, block_number := None,
                                 verified := True\<rparr>)
              else r) st"

text \<open>
  The simulation branch, taken when the blockchain service is absent or not
  initialized. It creates the watermarked file and then builds the parameters of its
  \<open>UPDATE ... verified = true\<close> from \<open>simulatedResult\<close>, a \<open>const\<close> declared inside the
  preceding \<open>try\<close> block and not in scope after it: the read throws a ReferenceError,
  the statement is never sent and the outer \<open>catch\<close> answers 500.
\<close>

definition finalize_simulated ::
  "lib \<Rightarrow> (db_call \<Rightarrow> bool) \<Rightarrow> chance \<Rightarrow> world \<Rightarrow> hash \<Rightarrow> world \<times> fin_reply" where
  "finalize_simulated L db_fails ce w h =
     (if db_fails SelectForFinalize then (w, fin_error 500)
      else (case select_by_document_hash (w_store w) h of
              None \<Rightarrow> (w, fin_error 500)
            | Some doc \<Rightarrow>
                (case createWatermarkedDocument L (w_fs w) (processed_file_path doc) h
                        \<lparr>wm_txHash = ''0x'' @ sim_digits ce,
                         wm_block_number = nat_to_string (sim_block ce)\<rparr> of
                   None \<Rightarrow> (w, fin_error 500)
                 | Some (fs', wpath) \<Rightarrow> (w\<lparr>w_fs := fs'\<rparr>, fin_error 500))))"

text \<open>The branch with an initialized blockchain service.\<close>

definition finalize_registered ::
  "lib \<Rightarrow> (db_call \<Rightarrow> bool) \<Rightarrow> chance \<Rightarrow> world \<Rightarrow> hash \<Rightarrow> world \<times> fin_reply" where
  "finalize_registered L db_fails ce w h =
     (if db_fails SelectForFinalize then (w, fin_error 500)
      else (case select_by_document_hash (w_store w) h of
              None \<Rightarrow> (w, fin_error 500)
            | Some doc \<Rightarrow>
                if verified doc \<and> truthy (blockchain_tx_hash doc)
                   \<and> truthy (watermarked_file_path doc)
                   \<and> read_file (w_fs w) (watermarked_file_path doc) \<noteq> None
                then (w, \<lparr>fin_status = 200, fin_verified = True,
                          fin_transactionHash = blockchain_tx_hash doc,
                          fin_watermarkedFile = watermarked_file_path doc\<rparr>)
                else
                  (case bc_registerDocument L (w_chain w) ce h of
                     None \<Rightarrow> (w, fin_error 500)
                   | Some (ch', None) \<Rightarrow> (w\<lparr>w_chain := ch'\<rparr>, fin_error 500)
                   | Some (ch', Some tx) \<Rightarrow>
                       (let (fs', wpath) =
                              (case createWatermarkedDocument L (w_fs w)
                                      (processed_file_path doc) h
                                      \<lparr>wm_txHash = tx, wm_block_number = ''undefined''\<rparr> of
                                 None \<Rightarrow> (w_fs w, None)
                               | Some (fs1, p) \<Rightarrow> (fs1, Some p));
                            w1 = w\<lparr>w_chain := ch', w_fs := fs'\<rparr>
                        in if db_fails UpdateVerified then (w1, fin_error 500)
                           else (w1\<lparr>w_store := mark_verified tx wpath h (w_store w)\<rparr>,
                                 \<lparr>fin_status = 200, fin_verified = True,
                                  fin_transactionHash = Some tx,
                                  fin_watermarkedFile = wpath\<rparr>)))))"

definition finalize ::
  "lib \<Rightarrow> (db_call \<Rightarrow> bool) \<Rightarrow> chance \<Rightarrow> world \<Rightarrow> hash option \<Rightarrow> world \<times> fin_reply" where
  "finalize L db_fails ce w document_hash_param =
     (case document_hash_param of
        None \<Rightarrow> (w, fin_error 400)
      | Some h \<Rightarrow>
          if h = [] then (w, fin_error 400)
          else if \<not> chain_present (w_chain w) \<or> \<not> chain_initialized (w_chain w)
          then finalize_simulated L db_fails ce w h
          else finalize_registered L db_fails ce w h)"

section \<open>The canonical content encoders\<close>

text \<open>
  The scalar values of the issuance data: \<open>undefined\<close>, a string or a whole number,
  with their truthiness and their rendering in a template literal. A collection
  property is \<open>undefined\<close>, \<open>null\<close> or a value.
\<close>

datatype jsv = JUndefined | JString string | JNumber nat

definition js_truthy :: "jsv \<Rightarrow> bool" where
  "js_truthy v = (case v of JUndefined \<Rightarrow> False | JString s \<Rightarrow> s \<noteq> [] | JNumber n \<Rightarrow> n \<noteq> 0)"

definition js_string :: "jsv \<Rightarrow> string" where
  "js_string v =
     (case v of JUndefined \<Rightarrow> ''undefined'' | JString s \<Rightarrow> s | JNumber n \<Rightarrow> nat_to_string n)"

datatype 'a js_field = Undefined | Null | Value 'a

text \<open>
  \<open>dateIssued\<close> is a \<open>Date\<close> instance, given by what its \<open>toISOString()\<close> returns
  (\<open>None\<close> for an invalid date, where it throws a RangeError), or another value,
  which \<open>new Date(v).toISOString()\<close> renders (\<open>date_iso\<close>, a parameter; \<open>None\<close> when it
  throws).
\<close>

datatype date_input = DateInstance "string option" | DateValue jsv

record course =
  courseCode :: jsv
  courseName :: jsv
  units :: jsv
  grade :: jsv

record document_data =
  dd_studentId :: jsv
  dd_studentName :: jsv
  dd_documentType :: jsv
  dd_courseData :: "course list js_field"
  dd_grades :: "(string \<times> jsv) list js_field"
  dd_dateIssued :: date_input
  dd_institutionName :: jsv

definition nl :: string where
  "nl = [CHR 0x0A]"

text \<open>One line of the \<open>COURSES:\<close> block; \<open>i\<close> is the index of \<open>forEach\<close>.\<close>

definition course_line :: "nat \<Rightarrow> course \<Rightarrow> string" where
  "course_line i c =
     nat_to_string (i + 1) @ ''. '' @ js_string (courseCode c) @ '' - '' @ js_string (courseName c)
     @ (if js_truthy (units c) then '' ('' @ js_string (units c) @ '' units)'' else [])
     @ (if js_truthy (grade c) then '' - Grade: '' @ js_string (grade c) else [])
     @ nl"

fun course_lines :: "nat \<Rightarrow> course list \<Rightarrow> string" where
  "course_lines i [] = []"
| "course_lines i (c # cs) = course_line i c @ course_lines (i + 1) cs"

definition courses_block :: "course list \<Rightarrow> string" where
  "courses_block cs = (if 0 < length cs then ''COURSES:'' @ nl @ course_lines 0 cs else [])"

definition grades_block :: "(string \<times> jsv) list \<Rightarrow> string" where
  "grades_block gs =
     (if 0 < length gs
      then ''GRADES:'' @ nl @ concat (map (\<lambda>(subject, g). subject @ '': '' @ js_string g @ nl) gs)
      else [])"

definition scalar_lines :: "document_data \<Rightarrow> string \<Rightarrow> string" where
  "scalar_lines D stamp =
     ''DOCUMENT_TYPE:'' @ js_string (dd_documentType D) @ nl
     @ ''STUDENT_ID:'' @ js_string (dd_studentId D) @ nl
     @ ''STUDENT_NAME:'' @ js_string (dd_studentName D) @ nl
     @ ''INSTITUTION:'' @ js_string (dd_institutionName D) @ nl
     @ ''DATE_ISSUED:'' @ stamp @ nl"

text \<open>
  \<open>PDFService.generateDocumentContent\<close>. The destructuring defaults replace an
  \<open>undefined\<close> collection by an empty one; \<open>null.length\<close> and \<open>Object.keys(null)\<close>
  throw. \<open>None\<close> is a thrown error.
\<close>

definition generateDocumentContent ::
  "(jsv \<Rightarrow> string option) \<Rightarrow> document_data \<Rightarrow> string option" where
  "generateDocumentContent date_iso D =
     (case (case dd_dateIssued D of DateInstance stamp \<Rightarrow> stamp | DateValue v \<Rightarrow> date_iso v) of
        None \<Rightarrow> None
      | Some stamp \<Rightarrow>
          (case dd_courseData D of
             Null \<Rightarrow> None
           | Undefined \<Rightarrow>
               (case dd_grades D of
                  Null \<Rightarrow> None
                | Undefined \<Rightarrow> Some (scalar_lines D stamp)
                | Value gs \<Rightarrow> Some (scalar_lines D stamp @ grades_block gs))
           | Value cs \<Rightarrow>
               (case dd_grades D of
                  Null \<Rightarrow> None
                | Undefined \<Rightarrow> Some (scalar_lines D stamp @ courses_block cs)
                | Value gs \<Rightarrow> Some (scalar_lines D stamp @ courses_block cs @ grades_block gs))))"

text \<open>
  \<open>TemplateService.createStandardizedContent(templateData, studentData)\<close>: the record
  it hands to \<open>generateDocumentContent\<close>. \<open>x || d\<close> replaces a falsy \<open>x\<close>;
  \<open>dateIssued\<close> is \<open>new Date()\<close>, given by the ISO rendering \<open>now\<close> of the clock.
\<close>

definition or_default :: "'a js_field \<Rightarrow> 'a \<Rightarrow> 'a js_field" where
  "or_default f d = (case f of Value v \<Rightarrow> Value v | _ \<Rightarrow> Value d)"

definition template_document_data :: "jsv \<Rightarrow> document_data \<Rightarrow> string \<Rightarrow> document_data" where
  "template_document_data institution studentData now =
     \<lparr>dd_studentId = dd_studentId studentData,
      dd_studentName = dd_studentName studentData,
      dd_documentType = dd_documentType studentData,
      dd_courseData = or_default (dd_courseData studentData) [],
      dd_grades = or_default (dd_grades studentData) [],
      dd_dateIssued = DateInstance (Some now),
      dd_institutionName =
        (if js_truthy (dd_institutionName studentData) then dd_institutionName studentData
         else if js_truthy institution then institution
         else JString ''Institution'')\<rparr>"

definition createStandardizedContent ::
  "(jsv \<Rightarrow> string option) \<Rightarrow> jsv \<Rightarrow> document_data \<Rightarrow> string \<Rightarrow> string option" where
  "createStandardizedContent date_iso institution studentData now =
     generateDocumentContent date_iso (template_document_data institution studentData now)"

section \<open>Predicates of the statements\<close>

text \<open>
  What the extractor recognises in a loaded document. A hash: a Subject that starts
  with \<open>0x\<close>, a Subject with the \<open>Verified:\<close> marker and a 66-character hash somewhere
  in it, or a \<open>verification_hash:\<close> token with such a hash in the Keywords. A watermark
  marker: \<open>Verified:\<close> in the Subject or \<open>blockchain_verified:true\<close> in the Keywords.
\<close>

definition carries_hash :: "pdf_doc \<Rightarrow> bool" where
  "carries_hash d =
     ((case pdf_subject d of
         Text s \<Rightarrow> starts_with s ''0x'' \<or> (str_includes s ''Verified:'' \<and> find_hash s \<noteq> None)
       | _ \<Rightarrow> False)
      \<or> (case pdf_keywords d of Text k \<Rightarrow> find_vhash k \<noteq> None | _ \<Rightarrow> False))"

definition carries_marker :: "pdf_doc \<Rightarrow> bool" where
  "carries_marker d =
     ((case pdf_subject d of Text s \<Rightarrow> str_includes s ''Verified:'' | _ \<Rightarrow> False)
      \<or> (case pdf_keywords d of
            Text k \<Rightarrow> str_includes k ''blockchain_verified:true''
          | _ \<Rightarrow> False))"

text \<open>Both entries can be read: neither getter throws.\<close>

definition readable_info :: "pdf_doc \<Rightarrow> bool" where
  "readable_info d = (pdf_subject d \<noteq> NotText \<and> pdf_keywords d \<noteq> NotText)"

text \<open>
  The processed file of a document followed by the watermark step: what the extractor
  returns on the watermarked file (\<open>None\<close> when one of the two steps throws).
\<close>

definition extract_after_watermark ::
  "lib \<Rightarrow> filesystem \<Rightarrow> path \<Rightarrow> hash \<Rightarrow> watermark_data \<Rightarrow> (hash option \<times> bool) option" where
  "extract_after_watermark L fs pdfPath h wm =
     (case embedQRInPDF L fs pdfPath True h of
        None \<Rightarrow> None
      | Some (fs1, processedPath) \<Rightarrow>
          (case addWatermarkToPDF L fs1 processedPath
                  (''uploads/watermarked/'' @ h @ ''_verified.pdf'') wm of
             None \<Rightarrow> None
           | Some (fs2, watermarkedPath) \<Rightarrow> Some (extractHashFromPDF fs2 watermarkedPath)))"

text \<open>
  The comparison target of the tamper classifier, read off the row and the file
  system: the file of the first variant whose hash is set, whether that target is the
  watermarked variant with a readable file, and whether the page count of the
  uploaded PDF differs from that of the watermarked file (which must load and have a
  non-zero page count).
\<close>

definition has_any_hash :: "doc_row \<Rightarrow> bool" where
  "has_any_hash doc =
     (truthy (watermarked_content_hash doc) \<or> truthy (processed_content_hash doc)
      \<or> truthy (content_hash doc))"

definition expected_file :: "filesystem \<Rightarrow> doc_row \<Rightarrow> stored_file option" where
  "expected_file fs doc =
     (if truthy (watermarked_content_hash doc) then read_file fs (watermarked_file_path doc)
      else if truthy (processed_content_hash doc) then read_file fs (processed_file_path doc)
      else if truthy (content_hash doc) then read_file fs (original_file_path doc)
      else None)"

definition expects_watermarked :: "filesystem \<Rightarrow> doc_row \<Rightarrow> bool" where
  "expects_watermarked fs doc =
     (truthy (watermarked_content_hash doc)
      \<and> read_file fs (watermarked_file_path doc) \<noteq> None)"

definition page_mismatch :: "filesystem \<Rightarrow> doc_row \<Rightarrow> pdf_doc \<Rightarrow> bool" where
  "page_mismatch fs doc up =
     (expects_watermarked fs doc
      \<and> (case read_file fs (watermarked_file_path doc) of
            None \<Rightarrow> False
          | Some f \<Rightarrow>
              (case file_pdf f of
                 None \<Rightarrow> False
               | Some d \<Rightarrow> pdf_pages d \<noteq> 0 \<and> pdf_pages up \<noteq> pdf_pages d)))"

definition exact_ratio :: "nat \<Rightarrow> nat option \<Rightarrow> rat" where
  "exact_ratio u ex =
     (case ex of
        None \<Rightarrow> 1
      | Some e \<Rightarrow> if e = 0 then 1 else \<bar>of_nat u - of_nat e\<bar> / of_nat e)"

text \<open>
  What the backfill owes one variant: a hash that is set stays; a missing hash whose
  file path is set and whose file can be read becomes the digest of the file; a
  missing hash stays missing otherwise.
\<close>

definition backfilled ::
  "lib \<Rightarrow> filesystem \<Rightarrow> hash option \<Rightarrow> path option \<Rightarrow> hash option \<Rightarrow> bool" where
  "backfilled L fs before p after =
     (if truthy before then after = before
      else (case (if truthy p then read_file fs p else None) of
              Some f \<Rightarrow> after = Some (keccak256 L (file_bytes f))
            | None \<Rightarrow> after = before))"

text \<open>A row with its three content-hash columns blanked: every other column.\<close>

definition clear_hashes :: "doc_row \<Rightarrow> doc_row" where
  "clear_hashes r =
     r\<lparr>content_hash := None, processed_content_hash := None,
       watermarked_content_hash := None\<rparr>"

text \<open>
  The ledger confirms a hash: the service is present and initialized, the hash is a
  \<open>bytes32\<close> the encoder accepts, the contract call goes through, and the registry
  holds the hash.
\<close>

definition ledger_confirms :: "chain \<Rightarrow> hash \<Rightarrow> bool" where
  "ledger_confirms ch h =
     (chain_present ch \<and> chain_initialized ch \<and> wf_hash h \<and> \<not> chain_call_fails ch
      \<and> contract_lookup (chain_ledger ch) h \<noteq> None)"

text \<open>A row one of whose three content hashes is \<open>h\<close>.\<close>

definition content_match :: "hash \<Rightarrow> doc_row \<Rightarrow> bool" where
  "content_match h r =
     (content_hash r = Some h \<or> processed_content_hash r = Some h
      \<or> watermarked_content_hash r = Some h)"

text \<open>
  The registry holds a hash; every row's \<open>verified\<close> flag equals what the registry
  says of its document hash; every row whose flag is set has its hash on the registry.
\<close>

definition ledger_holds :: "world \<Rightarrow> hash \<Rightarrow> bool" where
  "ledger_holds w h = (contract_lookup (chain_ledger (w_chain w)) h \<noteq> None)"

definition cache_coherent :: "world \<Rightarrow> bool" where
  "cache_coherent w =
     list_all (\<lambda>r. verified r = ledger_holds w (document_hash r)) (w_store w)"

definition verified_backed :: "world \<Rightarrow> bool" where
  "verified_backed w =
     list_all (\<lambda>r. verified r \<longrightarrow> ledger_holds w (document_hash r)) (w_store w)"

section \<open>Example inputs\<close>

text \<open>
  Concrete values for the library parameters, used where a statement is evaluated on
  an example: a stand-in digest, a serialisation, the extension and the base name of
  a plain file name, and \<open>LIKE\<close> with its two wildcards.
\<close>

definition demo_digest :: "nat list \<Rightarrow> hash" where
  "demo_digest bs = ''0x'' @ map (\<lambda>b. if b = 0 then CHR ''0'' else CHR ''1'') bs"

definition demo_extname :: "path \<Rightarrow> string" where
  "demo_extname p =
     (if CHR ''.'' \<in> set p then CHR ''.'' # rev (takeWhile (\<lambda>c. c \<noteq> CHR ''.'') (rev p))
      else [])"

definition demo_basename :: "string \<Rightarrow> string" where
  "demo_basename p =
     (if CHR ''.'' \<in> set p then rev (tl (dropWhile (\<lambda>c. c \<noteq> CHR ''.'') (rev p))) else p)"

fun like_match :: "string \<Rightarrow> string \<Rightarrow> bool" where
  "like_match [] [] = True"
| "like_match [] (c # cs) = False"
| "like_match (p # ps) [] = (p = CHR ''%'' \<and> like_match ps [])"
| "like_match (p # ps) (c # cs) =
     (if p = CHR ''%'' then like_match ps (c # cs) \<or> like_match (p # ps) cs
      else (p = CHR ''_'' \<or> p = c) \<and> like_match ps cs)"

definition demo_lib :: lib where
  "demo_lib =
     \<lparr>keccak256 = demo_digest, pdf_save = (\<lambda>d. [pdf_pages d]), extname = demo_extname,
      basename_noext = demo_basename, sql_like = (\<lambda>v pat. like_match pat v),
      image_stamp = (\<lambda>f. Some f)\<rparr>"

definition demo_hash :: hash where
  "demo_hash = ''0x'' @ replicate 64 (CHR ''a'')"

definition demo_pdf :: pdf_doc where
  "demo_pdf =
     \<lparr>pdf_subject = Missing, pdf_keywords = Missing, pdf_producer = None, pdf_title = None,
      pdf_pages = 2, pdf_overlays = []\<rparr>"

definition demo_fs :: filesystem where
  "demo_fs = [''in.pdf'' \<mapsto> \<lparr>file_bytes = [1, 2, 3], file_pdf = Some demo_pdf\<rparr>,
              ''note.txt'' \<mapsto> \<lparr>file_bytes = [7], file_pdf = None\<rparr>]"

text \<open>A PDF whose Subject carries the marker and a transaction hash of the short form
  the simulation branch draws.\<close>

definition marked_pdf :: pdf_doc where
  "marked_pdf = demo_pdf\<lparr>pdf_subject := Text ''Blockchain Verified: 0x1f''\<rparr>"

text \<open>The same PDF with a Keywords entry that is not a string.\<close>

definition odd_pdf :: pdf_doc where
  "odd_pdf = marked_pdf\<lparr>pdf_keywords := NotText\<rparr>"

definition marked_fs :: filesystem where
  "marked_fs = [''w.pdf'' \<mapsto> \<lparr>file_bytes = [4, 5], file_pdf = Some marked_pdf\<rparr>,
                ''odd.pdf'' \<mapsto> \<lparr>file_bytes = [4, 6], file_pdf = Some odd_pdf\<rparr>,
                ''note.txt'' \<mapsto> \<lparr>file_bytes = [7], file_pdf = None\<rparr>]"

text \<open>A transaction hash, and the watermark data of the registered branch.\<close>

definition demo_tx :: string where
  "demo_tx = ''0x'' @ replicate 64 (CHR ''7'')"

definition demo_wm :: watermark_data where
  "demo_wm = \<lparr>wm_txHash = demo_tx, wm_block_number = ''undefined''\<rparr>"

text \<open>
  A row with its processed and original files, a three-page upload and a four-byte
  text upload.
\<close>

definition demo_row :: doc_row where
  "demo_row =
     \<lparr>document_hash = ''0xd1'', student_name = Some ''Ana Cruz'', student_id = Some ''2021-00001'',
      program = Some ''BSCS'', document_type = Some ''TOR'', date_issued = Some ''2024-01-15'',
      original_file_name = Some ''tor.pdf'', processed_file_path = Some ''p.pdf'',
      original_file_path = Some ''o.pdf'', watermarked_file_path = None,
      content_hash = None, processed_content_hash = Some ''0x10'',
      watermarked_content_hash = None, verified = False, blockchain_tx_hash = None,
      block_number = None, created_at = 5\<rparr>"

definition three_pages :: pdf_doc where
  "three_pages = demo_pdf\<lparr>pdf_pages := 3\<rparr>"

definition verif_fs :: filesystem where
  "verif_fs =
     [''up.pdf'' \<mapsto> \<lparr>file_bytes = [1, 1, 1, 1], file_pdf = Some three_pages\<rparr>,
      ''up.txt'' \<mapsto> \<lparr>file_bytes = [1, 1, 0, 0], file_pdf = None\<rparr>,
      ''p.pdf'' \<mapsto> \<lparr>file_bytes = [1, 0], file_pdf = Some demo_pdf\<rparr>,
      ''o.pdf'' \<mapsto> \<lparr>file_bytes = [0], file_pdf = Some demo_pdf\<rparr>,
      ''w.pdf'' \<mapsto> \<lparr>file_bytes = [1, 1, 0, 1], file_pdf = Some marked_pdf\<rparr>]"

definition upload_pdf :: stored_file where
  "upload_pdf = \<lparr>file_bytes = [1, 1, 1, 1], file_pdf = Some three_pages\<rparr>"

text \<open>The row once registered and watermarked, all three hashes known.\<close>

definition verified_row :: doc_row where
  "verified_row =
     demo_row\<lparr>watermarked_file_path := Some ''w.pdf'', content_hash := Some ''0x0'',
       watermarked_content_hash := Some ''0x1101'', verified := True,
       blockchain_tx_hash := Some ''0xabc''\<rparr>"

text \<open>
  Requests: the exact bytes of the processed file, uploaded under another name, and
  the environment with an empty and with a filled ledger.
\<close>

definition processed_copy :: stored_file where
  "processed_copy = \<lparr>file_bytes = [1, 0], file_pdf = Some demo_pdf\<rparr>"

definition request_fs :: filesystem where
  "request_fs = verif_fs(''tmp/u1'' \<mapsto> processed_copy)"

definition processed_upload :: upload_file where
  "processed_upload =
     \<lparr>originalname = ''scan.pdf'', mimetype = ''application/pdf'', upload_path = ''tmp/u1''\<rparr>"

definition empty_chain :: chain where
  "empty_chain =
     \<lparr>chain_present = True, chain_initialized = True, chain_has_signer = True,
      chain_call_fails = False, chain_ledger = []\<rparr>"

definition no_failure :: "db_call \<Rightarrow> bool" where
  "no_failure c = False"

definition unregistered_env :: env where
  "unregistered_env =
     \<lparr>env_fs = request_fs, env_chain = empty_chain, env_db_fails = no_failure\<rparr>"

text \<open>The example row under a document hash of the boundary format, and the
  environment whose ledger holds that hash.\<close>

definition issued_row :: doc_row where
  "issued_row = demo_row\<lparr>document_hash := demo_hash\<rparr>"

definition registered_env :: env where
  "registered_env =
     \<lparr>env_fs = request_fs,
      env_chain = empty_chain\<lparr>chain_ledger := [(demo_hash, 1700000000)]\<rparr>,
      env_db_fails = no_failure\<rparr>"

text \<open>
  A world for the finalize route, the values a mined transaction reports, and a
  database whose \<open>UPDATE ... verified = true\<close> is rejected.
\<close>

definition demo_chance :: chance where
  "demo_chance = \<lparr>mined_tx = demo_tx, mined_time = 1700000000, sim_digits = ''1f'', sim_block = 7\<rparr>"

definition demo_world :: world where
  "demo_world = \<lparr>w_store = [issued_row], w_fs = verif_fs, w_chain = empty_chain\<rparr>"

text \<open>The same world without a blockchain service: the simulation branch.\<close>

definition offline_world :: world where
  "offline_world = demo_world\<lparr>w_chain := empty_chain\<lparr>chain_present := False\<rparr>\<rparr>"

definition update_fails :: "db_call \<Rightarrow> bool" where
  "update_fails c = (c = UpdateVerified)"

text \<open>Issuance data, with a date of issue that is not the instant of encoding.\<close>

definition no_date :: "jsv \<Rightarrow> string option" where
  "no_date v = None"

definition demo_data :: document_data where
  "demo_data =
     \<lparr>dd_studentId = JString ''2021-00001'', dd_studentName = JString ''Ana Cruz'',
      dd_documentType = JString ''TOR'', dd_courseData = Value [],
      dd_grades = Undefined,
      dd_dateIssued = DateInstance (Some ''2024-01-15T00:00:00.000Z''),
      dd_institutionName = JString ''PUP''\<rparr>"

definition graded_data :: document_data where
  "graded_data = demo_data\<lparr>dd_grades := Value [(''Math'', JString ''1.25'')]\<rparr>"

section \<open>Verification\<close>

lemma starts_with_prefix: "starts_with s p \<Longrightarrow> set p \<subseteq> set s"
  by (induction s p rule: starts_with.induct) auto

lemma str_includes_subset: "str_includes s p \<Longrightarrow> set p \<subseteq> set s"
proof (induction s)
  case Nil
  then show ?case by simp
next
  case (Cons c cs)
  then show ?case using starts_with_prefix[of "c # cs" p] by fastforce
qed

lemma starts_with_append: "starts_with (p @ s) p"
  by (induction p) auto

lemma wf_hash_chars: "wf_hash h \<Longrightarrow> set h \<subseteq> {CHR ''0'', CHR ''x''} \<union> {c. is_hex c}"
proof -
  assume w: "wf_hash h"
  then obtain a b r where h: "h = a # b # r"
    by (cases h; cases "tl h") (auto simp: wf_hash_def)
  with w have "a = CHR ''0''" "b = CHR ''x''" "list_all is_hex r"
    by (auto simp: wf_hash_def)
  with h show ?thesis by (auto simp: list_all_iff)
qed

lemma wf_hash_no_marker: "wf_hash h \<Longrightarrow> \<not> str_includes h ''Verified:''"
proof
  assume w: "wf_hash h" and i: "str_includes h ''Verified:''"
  from str_includes_subset[OF i] have "CHR ''V'' \<in> set h" by auto
  with wf_hash_chars[OF w] show False by (auto simp: is_hex_def)
qed

lemma hash_at_wf: "wf_hash h \<Longrightarrow> hash_at h = Some h"
  by (auto simp: hash_at_def wf_hash_def drop_take list_all_iff dest: in_set_takeD)

lemma find_vhash_hit: "vhash_at s = Some h \<Longrightarrow> find_vhash s = Some h"
  by (cases s) (auto simp: vhash_at_def)

lemma vhash_at_token: "vhash_at (''verification_hash:'' @ s) = hash_at s"
proof -
  have "starts_with (''verification_hash:'' @ s) ''verification_hash:''"
    by (rule starts_with_append)
  then show ?thesis unfolding vhash_at_def by (simp del: starts_with.simps)
qed

lemma find_vhash_token: "wf_hash h \<Longrightarrow> find_vhash (''verification_hash:'' @ h) = Some h"
  by (rule find_vhash_hit) (simp only: vhash_at_token hash_at_wf)

lemma keywords_not_marked:
  "wf_hash h \<Longrightarrow> \<not> str_includes (''verification_hash:'' @ h) ''blockchain_verified:true''"
proof
  assume w: "wf_hash h" and i: "str_includes (''verification_hash:'' @ h) ''blockchain_verified:true''"
  from str_includes_subset[OF i] have "CHR ''l'' \<in> set (''verification_hash:'' @ h)" by auto
  then have "CHR ''l'' \<in> set h" by auto
  with wf_hash_chars[OF w] show False by (auto simp: is_hex_def)
qed

lemma subject_hash_wf: "wf_hash h \<Longrightarrow> subject_hash (Some h) = Some h"
  using wf_hash_no_marker[of h] by (auto simp: subject_hash_def wf_hash_def)

lemma keywords_hash_hit: "find_vhash k = Some h \<Longrightarrow> keywords_hash (Some k) x = Some h"
  by (cases k) (auto simp: keywords_hash_def)

lemma extract_embedded:
  assumes w: "wf_hash h" and s: "pdf_subject d = Text h"
    and k: "pdf_keywords d = Text (''verification_hash:'' @ h)"
  shows "extract_doc d = (Some h, False)"
proof -
  have 1: "keywords_hash (Some (''verification_hash:'' @ h)) (subject_hash (Some h)) = Some h"
    by (rule keywords_hash_hit) (rule find_vhash_token[OF w])
  have 2: "\<not> subject_marked (Some h)"
    using wf_hash_no_marker[OF w] by (simp add: subject_marked_def)
  have 3: "\<not> keywords_marked (Some (''verification_hash:'' @ h))"
    unfolding keywords_marked_def using keywords_not_marked[OF w]
    by (simp only: option.case) blast
  show ?thesis unfolding extract_doc_def s k get_text_def using 1 2 3 by simp
qed

lemma read_written: "write_file fs p f = Some fs' \<Longrightarrow> read_file fs' (Some p) = Some f"
  by (auto simp: write_file_def read_file_def split: if_splits)

lemma embedQRInPDF_written:
  assumes "embedQRInPDF L fs p qr h = Some (fs', out)"
  shows "\<exists>d. read_file fs' (Some out) = Some (saved_pdf L d) \<and> pdf_subject d = Text h
           \<and> pdf_keywords d = Text (''verification_hash:'' @ h)"
  using assms
  by (auto simp: embedQRInPDF_def Let_def split: option.splits if_splits dest!: read_written)

lemma embedQRInPDF_roundtrip:
  assumes "wf_hash h" and "embedQRInPDF L fs p qr h = Some (fs', out)"
  shows "extractHashFromPDF fs' out = (Some h, False)"
proof -
  from assms(2) obtain d where d: "read_file fs' (Some out) = Some (saved_pdf L d)"
      "pdf_subject d = Text h" "pdf_keywords d = Text (''verification_hash:'' @ h)"
    using embedQRInPDF_written by blast
  with assms(1) show ?thesis
    by (simp add: extractHashFromPDF_def saved_pdf_def extract_embedded)
qed

lemma hash_at_wf_append: "wf_hash h \<Longrightarrow> hash_at (h @ s) = Some h"
proof -
  assume w: "wf_hash h"
  then obtain r where h: "h = CHR ''0'' # CHR ''x'' # r" and r: "length r = 64" "list_all is_hex r"
    by (cases h; cases "tl h") (auto simp: wf_hash_def)
  then show ?thesis by (simp add: hash_at_def)
qed

lemma find_hash_hit: "hash_at s = Some h \<Longrightarrow> find_hash s = Some h"
  by (cases s) (auto simp: hash_at_def)

lemma subject_of_watermark:
  assumes w: "wf_hash tx"
  shows "subject_hash (Some (''Blockchain Verified: '' @ tx)) = Some tx"
    and "subject_marked (Some (''Blockchain Verified: '' @ tx))"
proof -
  have f: "find_hash tx = Some tx" by (rule find_hash_hit) (rule hash_at_wf[OF w])
  have "find_hash (''Blockchain Verified: '' @ tx) = Some tx"
    by (simp add: hash_at_def f)
  moreover have "str_includes (''Blockchain Verified: '' @ tx) ''Verified:''"
    by simp
  ultimately show "subject_hash (Some (''Blockchain Verified: '' @ tx)) = Some tx"
    and "subject_marked (Some (''Blockchain Verified: '' @ tx))"
    by (simp_all add: subject_hash_def subject_marked_def)
qed

lemma keywords_of_watermark:
  assumes w: "wf_hash tx"
  shows "keywords_hash (Some (join_sp [''verification_hash:'' @ tx, b, c, d, e])) x = Some tx"
proof -
  have j: "join_sp [''verification_hash:'' @ tx, b, c, d, e]
           = ''verification_hash:'' @ (tx @ '' '' @ join_sp [b, c, d, e])"
    by simp
  have "vhash_at (''verification_hash:'' @ (tx @ '' '' @ join_sp [b, c, d, e])) = Some tx"
    unfolding vhash_at_token by (rule hash_at_wf_append[OF w])
  then have "find_vhash (join_sp [''verification_hash:'' @ tx, b, c, d, e]) = Some tx"
    unfolding j by (rule find_vhash_hit)
  then show ?thesis by (rule keywords_hash_hit)
qed

lemma addWatermarkToPDF_written:
  assumes "addWatermarkToPDF L fs inp outp wm = Some (fs', out)"
  shows "\<exists>d. read_file fs' (Some out) = Some (saved_pdf L d)
           \<and> pdf_subject d = Text (''Blockchain Verified: '' @ wm_txHash wm)
           \<and> pdf_keywords d = Text (join_sp
                [''verification_hash:'' @ wm_txHash wm, ''block_number:'' @ wm_block_number wm,
                 ''blockchain_verified:true'', ''watermarked:true'', ''original_copy:stamped''])"
  using assms
  by (auto simp: addWatermarkToPDF_def Let_def simp del: join_sp.simps
        split: option.splits dest!: read_written)

lemma addWatermarkToPDF_extract:
  assumes w: "wf_hash (wm_txHash wm)"
    and a: "addWatermarkToPDF L fs inp outp wm = Some (fs', out)"
  shows "extractHashFromPDF fs' out = (Some (wm_txHash wm), True)"
proof -
  from addWatermarkToPDF_written[OF a] obtain d where
    r: "read_file fs' (Some out) = Some (saved_pdf L d)"
    and s: "pdf_subject d = Text (''Blockchain Verified: '' @ wm_txHash wm)"
    and k: "pdf_keywords d = Text (join_sp
                [''verification_hash:'' @ wm_txHash wm, ''block_number:'' @ wm_block_number wm,
                 ''blockchain_verified:true'', ''watermarked:true'', ''original_copy:stamped''])"
    by blast
  have "extract_doc d = (Some (wm_txHash wm), True)"
    unfolding extract_doc_def s k get_text_def
    by (simp only: info_entry.case option.case keywords_of_watermark[OF w]
          subject_of_watermark(2)[OF w] simp_thms)
  with r show ?thesis by (simp add: extractHashFromPDF_def saved_pdf_def)
qed

lemma addWatermarkToPDF_succeeds:
  "read_file fs (Some inp) = Some (saved_pdf L d) \<Longrightarrow> outp \<noteq> []
     \<Longrightarrow> addWatermarkToPDF L fs inp outp wm \<noteq> None"
  by (simp add: addWatermarkToPDF_def saved_pdf_def write_file_def Let_def)

lemma wf_demo_hash: "wf_hash demo_hash"
  by (simp add: wf_hash_def demo_hash_def is_hex_def list_all_iff)

lemma wf_demo_tx: "wf_hash demo_tx"
  by (simp add: wf_hash_def demo_tx_def is_hex_def list_all_iff)

lemma demo_embed: "embedQRInPDF demo_lib demo_fs ''in.pdf'' True demo_hash \<noteq> None"
  by (simp add: embedQRInPDF_def demo_fs_def read_file_def write_file_def Let_def demo_pdf_def)

text \<open>
  Claim C4, at the failing input. A two-page PDF is processed for the document hash
  \<open>demo_hash\<close> and the processed file is then watermarked for the transaction hash
  \<open>demo_tx\<close>. On the processed file the extractor returns the document hash with
  \<open>isWatermarked = false\<close>. On the watermarked file it returns \<open>isWatermarked = true\<close>
  and the transaction hash, which is not the document hash: \<open>addWatermarkToPDF\<close>
  writes \<open>watermarkData.txHash\<close> into the Subject and into the \<open>verification_hash:\<close>
  keyword, where \<open>embedQRInPDF\<close> writes the document hash.
\<close>

theorem watermark_embeds_transaction_hash:
  "(case embedQRInPDF demo_lib demo_fs ''in.pdf'' True demo_hash of
      None \<Rightarrow> None
    | Some (fs1, processedPath) \<Rightarrow> Some (extractHashFromPDF fs1 processedPath))
     = Some (Some demo_hash, False)
   \<and> extract_after_watermark demo_lib demo_fs ''in.pdf'' demo_hash demo_wm
       = Some (Some demo_tx, True)
   \<and> demo_tx \<noteq> demo_hash"
proof -
  obtain fs1 p1 where e: "embedQRInPDF demo_lib demo_fs ''in.pdf'' True demo_hash = Some (fs1, p1)"
    using demo_embed by fastforce
  have 1: "extractHashFromPDF fs1 p1 = (Some demo_hash, False)"
    by (rule embedQRInPDF_roundtrip[OF wf_demo_hash e])
  from embedQRInPDF_written[OF e] obtain d where
    r: "read_file fs1 (Some p1) = Some (saved_pdf demo_lib d)" by blast
  have "addWatermarkToPDF demo_lib fs1 p1 (''uploads/watermarked/'' @ demo_hash @ ''_verified.pdf'')
          demo_wm \<noteq> None"
    by (rule addWatermarkToPDF_succeeds[OF r]) simp
  then obtain fs2 p2 where
    a: "addWatermarkToPDF demo_lib fs1 p1 (''uploads/watermarked/'' @ demo_hash @ ''_verified.pdf'')
          demo_wm = Some (fs2, p2)"
    by fastforce
  have t: "wm_txHash demo_wm = demo_tx" by (simp add: demo_wm_def)
  have 2: "extractHashFromPDF fs2 p2 = (Some demo_tx, True)"
    using addWatermarkToPDF_extract[OF _ a] wf_demo_tx t by simp
  have 3: "demo_tx \<noteq> demo_hash"
    by (simp add: demo_tx_def demo_hash_def)
  from e a 1 2 3 show ?thesis
    by (simp add: extract_after_watermark_def)
qed

lemma str_includes_nonempty: "str_includes s (p # ps) \<Longrightarrow> s \<noteq> []"
  by (cases s) auto

lemma starts_with_nonempty: "starts_with s (p # ps) \<Longrightarrow> s \<noteq> []"
  by (cases s) auto

lemma subject_hash_none: "subject_hash subject = None \<longleftrightarrow>
    (case subject of None \<Rightarrow> True
     | Some s \<Rightarrow> \<not> starts_with s ''0x'' \<and> \<not> (str_includes s ''Verified:'' \<and> find_hash s \<noteq> None))"
  by (cases subject)
     (auto simp: subject_hash_def Let_def split: option.splits
           dest: str_includes_nonempty starts_with_nonempty)

lemma keywords_hash_none: "keywords_hash k h = None \<longleftrightarrow>
    h = None \<and> (case k of None \<Rightarrow> True | Some s \<Rightarrow> find_vhash s = None)"
  by (cases k) (auto simp: keywords_hash_def split: option.splits)

lemma extract_doc_unreadable: "\<not> readable_info d \<Longrightarrow> extract_doc d = (None, False)"
  by (auto simp: readable_info_def extract_doc_def get_text_def split: info_entry.splits)

lemma extract_doc_hash: "readable_info d \<Longrightarrow> fst (extract_doc d) = None \<longleftrightarrow> \<not> carries_hash d"
  by (cases "pdf_subject d"; cases "pdf_keywords d")
     (auto simp: readable_info_def extract_doc_def get_text_def keywords_hash_none
        subject_hash_none carries_hash_def)

lemma extract_doc_marker: "readable_info d \<Longrightarrow> snd (extract_doc d) = carries_marker d"
  by (cases "pdf_subject d"; cases "pdf_keywords d")
     (auto simp: readable_info_def extract_doc_def get_text_def carries_marker_def
        subject_marked_def keywords_marked_def dest: str_includes_nonempty)

text \<open>
  Claim C10, as amended. \<open>extractHashFromPDF\<close> returns a pair on every input. The
  pair is \<open>(null, false)\<close> when the file cannot be read, when it does not load as a
  PDF, and when its Subject or Keywords entry is not a string (the getter throws into
  the same \<open>catch\<close>). When the file loads and both entries can be read, the hash is
  \<open>null\<close> exactly when neither Subject nor Keywords carries a recognisable hash, and
  \<open>isWatermarked\<close> is true exactly when a watermark marker is present, whether or not
  a hash was found.
\<close>

theorem extractHashFromPDF_total:
  "(case read_file fs (Some p) of
      None \<Rightarrow> extractHashFromPDF fs p = (None, False)
    | Some f \<Rightarrow>
        (case file_pdf f of
           None \<Rightarrow> extractHashFromPDF fs p = (None, False)
         | Some d \<Rightarrow>
             if readable_info d
             then (fst (extractHashFromPDF fs p) = None) = (\<not> carries_hash d)
                  \<and> snd (extractHashFromPDF fs p) = carries_marker d
             else extractHashFromPDF fs p = (None, False)))"
  by (auto simp: extractHashFromPDF_def extract_doc_hash extract_doc_marker
        extract_doc_unreadable split: option.splits)

text \<open>
  On the examples: a text file; a watermarked PDF without a recoverable hash; the same
  PDF with a Keywords entry that is not a string.
\<close>

theorem extractHashFromPDF_total_witness:
  "extractHashFromPDF marked_fs ''note.txt'' = (None, False)
   \<and> fst (extractHashFromPDF marked_fs ''w.pdf'') = None
   \<and> snd (extractHashFromPDF marked_fs ''w.pdf'') = carries_marker marked_pdf
   \<and> carries_marker odd_pdf
   \<and> extractHashFromPDF marked_fs ''odd.pdf'' = (None, False)"
proof -
  have r: "read_file marked_fs (Some ''note.txt'') = Some \<lparr>file_bytes = [7], file_pdf = None\<rparr>"
    "read_file marked_fs (Some ''w.pdf'') = Some \<lparr>file_bytes = [4, 5], file_pdf = Some marked_pdf\<rparr>"
    "read_file marked_fs (Some ''odd.pdf'') = Some \<lparr>file_bytes = [4, 6], file_pdf = Some odd_pdf\<rparr>"
    by (simp_all add: marked_fs_def read_file_def)
  have i: "readable_info marked_pdf" "\<not> readable_info odd_pdf" "\<not> carries_hash marked_pdf"
    "carries_marker odd_pdf"
    by (simp_all add: readable_info_def carries_hash_def carries_marker_def odd_pdf_def
          marked_pdf_def demo_pdf_def hash_at_def)
  from extractHashFromPDF_total[of marked_fs "''note.txt''"]
       extractHashFromPDF_total[of marked_fs "''w.pdf''"]
       extractHashFromPDF_total[of marked_fs "''odd.pdf''"] r i
  show ?thesis by simp
qed

text \<open>
  The claim as stated fails: a PDF that loads, whose entries can be read and carry no
  recognisable hash, for which the extractor returns \<open>hash = null\<close> together with
  \<open>isWatermarked = true\<close>.
\<close>

theorem extractHashFromPDF_marker_counterexample:
  "\<not> carries_hash marked_pdf
   \<and> read_file marked_fs (Some ''w.pdf'') = Some \<lparr>file_bytes = [4, 5], file_pdf = Some marked_pdf\<rparr>
   \<and> extractHashFromPDF marked_fs ''w.pdf'' = (None, True)"
  by (simp add: marked_fs_def read_file_def carries_hash_def marked_pdf_def demo_pdf_def
        hash_at_def extractHashFromPDF_def extract_doc_def get_text_def subject_hash_def
        keywords_hash_def subject_marked_def keywords_marked_def)

lemma truthy_Some: "truthy (Some h) = (h \<noteq> [])"
  by (simp add: truthy_def)

lemma match_details_fields:
  "authentic (match_details u e k)" "\<not> tampered (match_details u e k)"
  "documentType (match_details u e k) = Some k" "confidence (match_details u e k) = Some 100"
  "expectedHash (match_details u e k) = e" "tamperType (match_details u e k) = None"
  by (simp_all add: match_details_def no_details_def)

lemma detect_fields:
  "\<not> authentic (detectTamperingWithWatermarkAwareness fs buf u doc m w)"
  "tampered (detectTamperingWithWatermarkAwareness fs buf u doc m w)"
  "documentType (detectTamperingWithWatermarkAwareness fs buf u doc m w) = None"
  by (simp_all add: detectTamperingWithWatermarkAwareness_def no_details_def Let_def
        split: prod.splits)

text \<open>
  Claim C2. For an uploaded hash (a Keccak digest, never the empty string) the
  comparison runs in the order watermarked, processed, original: the watermarked hash
  counts only on a row whose \<open>verified\<close> flag is set; the first equal hash makes the
  result authentic, with \<open>documentType\<close> naming that variant and confidence 100; with
  no equal hash the result is not authentic.
\<close>

theorem verifyDocumentIntegrity_priority:
  "uHash \<noteq> [] \<Longrightarrow>
     (let r = verifyDocumentIntegrity fs buf uHash doc mime wm in
      if verified doc \<and> watermarked_content_hash doc = Some uHash
      then authentic r \<and> \<not> tampered r \<and> documentType r = Some watermarked_verified
           \<and> confidence r = Some 100
      else if processed_content_hash doc = Some uHash
      then authentic r \<and> \<not> tampered r \<and> documentType r = Some processed
           \<and> confidence r = Some 100
      else if content_hash doc = Some uHash
      then authentic r \<and> \<not> tampered r \<and> documentType r = Some original
           \<and> confidence r = Some 100
      else \<not> authentic r \<and> tampered r \<and> documentType r = None)"
  by (auto simp: verifyDocumentIntegrity_def Let_def truthy_Some match_details_fields
        detect_fields)

text \<open>
  On a verified row whose watermarked and processed hashes are both the uploaded
  hash, the watermarked variant wins; on the same row without the flag, the processed
  one.
\<close>

theorem verifyDocumentIntegrity_priority_witness:
  "documentType (verifyDocumentIntegrity verif_fs upload_pdf ''0x10''
       (verified_row\<lparr>watermarked_content_hash := Some ''0x10''\<rparr>) ''application/pdf'' False)
     = Some watermarked_verified
   \<and> documentType (verifyDocumentIntegrity verif_fs upload_pdf ''0x10''
       (verified_row\<lparr>watermarked_content_hash := Some ''0x10'', verified := False\<rparr>)
       ''application/pdf'' False)
     = Some processed
   \<and> confidence (verifyDocumentIntegrity verif_fs upload_pdf ''0x0''
       verified_row ''application/pdf'' False) = Some 100"
  using verifyDocumentIntegrity_priority[of "''0x10''" verif_fs upload_pdf
          "verified_row\<lparr>watermarked_content_hash := Some ''0x10''\<rparr>" "''application/pdf''" False]
        verifyDocumentIntegrity_priority[of "''0x10''" verif_fs upload_pdf
          "verified_row\<lparr>watermarked_content_hash := Some ''0x10'', verified := False\<rparr>"
          "''application/pdf''" False]
        verifyDocumentIntegrity_priority[of "''0x0''" verif_fs upload_pdf
          verified_row "''application/pdf''" False]
  by (simp add: verified_row_def demo_row_def Let_def)

lemma read_file_truthy: "read_file fs p \<noteq> None \<Longrightarrow> truthy p"
  by (auto simp: read_file_def truthy_def split: option.splits if_splits)

lemma expected_target_size:
  "fst (snd (expected_target fs doc)) =
     (if has_any_hash doc
      then Some (case expected_file fs doc of None \<Rightarrow> 0 | Some f \<Rightarrow> length (file_bytes f))
      else None)"
  by (auto simp: expected_target_def expected_of_def has_any_hash_def expected_file_def
        split: option.splits)

lemma expected_target_version:
  "(snd (snd (expected_target fs doc)) = Some Watermarked) = expects_watermarked fs doc"
  by (auto simp: expected_target_def expected_of_def expects_watermarked_def
        split: option.splits)

lemma expected_page_count_mismatch:
  "(case expected_page_count fs doc (snd (snd (expected_target fs doc))) of
      None \<Rightarrow> False
    | Some n \<Rightarrow> n \<noteq> 0 \<and> pdf_pages up \<noteq> n) = page_mismatch fs doc up"
  using read_file_truthy[of fs "watermarked_file_path doc"]
  by (auto simp: expected_page_count_def page_mismatch_def expected_target_version
        expects_watermarked_def split: option.splits)

lemma size_ratio_exact: "size_ratio u ex = exact_ratio u ex"
  by (auto simp: size_ratio_def exact_ratio_def split: option.splits)

lemma size_difference_zero: "(size_difference u ex = Some 0) = (ex = Some u)"
  by (auto simp: size_difference_def split: option.splits)

lemma detect_result:
  "detectTamperingWithWatermarkAwareness fs buf uHash doc mime wm = r \<Longrightarrow>
     \<not> authentic r \<and> tampered r
     \<and> expectedSize r = fst (snd (expected_target fs doc))
     \<and> expectedVersion r = snd (snd (expected_target fs doc))
     \<and> sizeRatio r = Some (size_ratio (length (file_bytes buf)) (fst (snd (expected_target fs doc))))
     \<and> sizeDifference r = size_difference (length (file_bytes buf)) (fst (snd (expected_target fs doc)))
     \<and> (tamperType r, confidence r) =
         (if mime = ''application/pdf''
          then (Some (fst (classify_pdf (file_pdf buf)
                  (expected_page_count fs doc (snd (snd (expected_target fs doc)))) wm
                  (snd (snd (expected_target fs doc)))
                  (size_ratio (length (file_bytes buf)) (fst (snd (expected_target fs doc)))))),
                Some (snd (classify_pdf (file_pdf buf)
                  (expected_page_count fs doc (snd (snd (expected_target fs doc)))) wm
                  (snd (snd (expected_target fs doc)))
                  (size_ratio (length (file_bytes buf)) (fst (snd (expected_target fs doc)))))))
          else (Some (fst (classify_other
                  (size_difference (length (file_bytes buf)) (fst (snd (expected_target fs doc))))
                  (size_ratio (length (file_bytes buf)) (fst (snd (expected_target fs doc)))))),
                Some (snd (classify_other
                  (size_difference (length (file_bytes buf)) (fst (snd (expected_target fs doc))))
                  (size_ratio (length (file_bytes buf)) (fst (snd (expected_target fs doc))))))))"
  by (cases "expected_target fs doc")
     (auto simp: detectTamperingWithWatermarkAwareness_def no_details_def Let_def
        split: prod.splits)

lemma classify_pdf_cases:
  "classify_pdf upl (expected_page_count fs doc (snd (snd (expected_target fs doc)))) wm
      (snd (snd (expected_target fs doc))) rho =
   (case upl of
      None \<Rightarrow> (STRUCTURE_CORRUPTION, 100)
    | Some up \<Rightarrow>
        if page_mismatch fs doc up then (PAGE_MODIFICATION, 100)
        else if wm \<and> \<not> expects_watermarked fs doc then (WATERMARK_MISMATCH, 85)
        else if \<not> wm \<and> expects_watermarked fs doc then (WATERMARK_REMOVAL, 95)
        else if rho < 1 / 100 then (MINOR_MODIFICATION, 70)
        else (CONTENT_MODIFICATION, 95))"
  unfolding classify_pdf_def expected_page_count_mismatch expected_target_version
  by (simp split: option.splits)

text \<open>
  Claim C3, as amended. The result of the tamper classifier always has
  \<open>authentic: false\<close> and \<open>tampered: true\<close>. Its \<open>sizeRatio\<close> is
  \<open>|uploadedSize - expectedSize| / expectedSize\<close>, and 1 when the expected size is 0 or
  unknown; the expected size is the size of the file of the first variant whose hash
  is set, 0 when that file cannot be read. For a PDF upload: an upload that does not
  load gives \<open>STRUCTURE_CORRUPTION\<close> (100); otherwise a page count different from that of
  the watermarked file gives \<open>PAGE_MODIFICATION\<close> (100), the counts being compared only
  when the expected variant is the watermarked one and its file loads with a non-zero
  page count; else a self-reported watermarked upload with an expected variant that
  is not the watermarked one gives \<open>WATERMARK_MISMATCH\<close> (85); else a watermarked
  expected variant with an upload that is not self-reported watermarked gives
  \<open>WATERMARK_REMOVAL\<close> (95); else \<open>sizeRatio < 0.01\<close> gives \<open>MINOR_MODIFICATION\<close> (70); else
  \<open>CONTENT_MODIFICATION\<close> (95). For another upload: equal sizes give
  \<open>CONTENT_REPLACEMENT\<close> (100), \<open>sizeRatio < 0.05\<close> gives \<open>MINOR_MODIFICATION\<close> (85), else
  \<open>MAJOR_MODIFICATION\<close> (100).
\<close>

theorem detectTampering_classification:
  "detectTamperingWithWatermarkAwareness fs buf uHash doc mime wm = r \<Longrightarrow>
     \<not> authentic r \<and> tampered r
     \<and> expectedSize r =
         (if has_any_hash doc
          then Some (case expected_file fs doc of None \<Rightarrow> 0 | Some f \<Rightarrow> length (file_bytes f))
          else None)
     \<and> sizeRatio r = Some (exact_ratio (length (file_bytes buf)) (expectedSize r))
     \<and> (tamperType r, confidence r) =
         (if mime = ''application/pdf''
          then (case file_pdf buf of
                  None \<Rightarrow> (Some STRUCTURE_CORRUPTION, Some 100)
                | Some up \<Rightarrow>
                    if page_mismatch fs doc up then (Some PAGE_MODIFICATION, Some 100)
                    else if wm \<and> \<not> expects_watermarked fs doc
                    then (Some WATERMARK_MISMATCH, Some 85)
                    else if \<not> wm \<and> expects_watermarked fs doc
                    then (Some WATERMARK_REMOVAL, Some 95)
                    else if exact_ratio (length (file_bytes buf)) (expectedSize r) < 1 / 100
                    then (Some MINOR_MODIFICATION, Some 70)
                    else (Some CONTENT_MODIFICATION, Some 95))
          else if expectedSize r = Some (length (file_bytes buf))
          then (Some CONTENT_REPLACEMENT, Some 100)
          else if exact_ratio (length (file_bytes buf)) (expectedSize r) < 5 / 100
          then (Some MINOR_MODIFICATION, Some 85)
          else (Some MAJOR_MODIFICATION, Some 100))"
proof -
  assume a: "detectTamperingWithWatermarkAwareness fs buf uHash doc mime wm = r"
  note d = detect_result[OF a]
  from d have es: "expectedSize r = fst (snd (expected_target fs doc))" by blast
  show ?thesis
  proof (cases "mime = ''application/pdf''")
    case True
    with d show ?thesis
      unfolding classify_pdf_cases size_ratio_exact es[symmetric]
      by (simp add: expected_target_size es split: option.splits)
  next
    case False
    with d show ?thesis
      unfolding size_ratio_exact size_difference_zero es[symmetric]
      by (simp add: expected_target_size es classify_other_def size_difference_zero)
  qed
qed

text \<open>
  On the examples: against the watermarked variant a three-page upload is a page
  modification; a text upload of the expected size is a content replacement.
\<close>

theorem detectTampering_classification_witness:
  "tamperType (detectTamperingWithWatermarkAwareness verif_fs upload_pdf ''0x1111''
       verified_row ''application/pdf'' False) = Some PAGE_MODIFICATION
   \<and> confidence (detectTamperingWithWatermarkAwareness verif_fs upload_pdf ''0x1111''
       verified_row ''application/pdf'' False) = Some 100
   \<and> tamperType (detectTamperingWithWatermarkAwareness verif_fs
       \<lparr>file_bytes = [1, 1, 0, 0], file_pdf = None\<rparr> ''0x1100''
       verified_row ''text/plain'' False) = Some CONTENT_REPLACEMENT
   \<and> sizeRatio (detectTamperingWithWatermarkAwareness verif_fs upload_pdf ''0x1111''
       demo_row ''application/pdf'' False) = Some 1"
proof -
  define r1 where "r1 = detectTamperingWithWatermarkAwareness verif_fs upload_pdf ''0x1111''
       verified_row ''application/pdf'' False"
  define r2 where "r2 = detectTamperingWithWatermarkAwareness verif_fs
       \<lparr>file_bytes = [1, 1, 0, 0], file_pdf = None\<rparr> ''0x1100'' verified_row ''text/plain'' False"
  define r3 where "r3 = detectTamperingWithWatermarkAwareness verif_fs upload_pdf ''0x1111''
       demo_row ''application/pdf'' False"
  have up: "file_pdf upload_pdf = Some three_pages" "length (file_bytes upload_pdf) = 4"
    by (simp_all add: upload_pdf_def)
  have pm: "page_mismatch verif_fs verified_row three_pages"
    by (simp add: page_mismatch_def expects_watermarked_def verified_row_def demo_row_def
          verif_fs_def truthy_def read_file_def three_pages_def marked_pdf_def demo_pdf_def)
  have ev: "has_any_hash verified_row"
      "expected_file verif_fs verified_row = Some \<lparr>file_bytes = [1, 1, 0, 1], file_pdf = Some marked_pdf\<rparr>"
    by (simp_all add: has_any_hash_def expected_file_def verified_row_def demo_row_def
          verif_fs_def truthy_def read_file_def)
  have ed: "has_any_hash demo_row"
      "expected_file verif_fs demo_row = Some \<lparr>file_bytes = [1, 0], file_pdf = Some demo_pdf\<rparr>"
    by (simp_all add: has_any_hash_def expected_file_def demo_row_def
          verif_fs_def truthy_def read_file_def)
  from detectTampering_classification[OF r1_def[symmetric]] up pm
  have 1: "tamperType r1 = Some PAGE_MODIFICATION" "confidence r1 = Some 100"
    by auto
  from detectTampering_classification[OF r2_def[symmetric]] ev
  have 2: "tamperType r2 = Some CONTENT_REPLACEMENT"
    by auto
  from detectTampering_classification[OF r3_def[symmetric]] ed up
  have 3: "sizeRatio r3 = Some 1"
    by (auto simp: exact_ratio_def)
  from 1 2 3 show ?thesis unfolding r1_def r2_def r3_def by blast
qed

text \<open>
  The claim as stated fails: the uploaded PDF has three pages, the expected file (the
  processed variant) has two, and the classifier does not report a page modification.
\<close>

theorem page_count_counterexample:
  "file_pdf upload_pdf = Some three_pages \<and> pdf_pages three_pages = 3
   \<and> expected_file verif_fs demo_row = Some \<lparr>file_bytes = [1, 0], file_pdf = Some demo_pdf\<rparr>
   \<and> pdf_pages demo_pdf = 2
   \<and> tamperType (detectTamperingWithWatermarkAwareness verif_fs upload_pdf ''0x1111''
        demo_row ''application/pdf'' False) = Some CONTENT_MODIFICATION
   \<and> confidence (detectTamperingWithWatermarkAwareness verif_fs upload_pdf ''0x1111''
        demo_row ''application/pdf'' False) = Some 95"
  by (simp add: demo_row_def verif_fs_def upload_pdf_def three_pages_def demo_pdf_def
        expected_file_def truthy_def read_file_def
        detectTamperingWithWatermarkAwareness_def expected_target_def expected_of_def
        size_difference_def size_ratio_def expected_page_count_def classify_pdf_def
        no_details_def Let_def)

lemma set_hashes_document_hash: "document_hash (set_hashes p orig w r) = document_hash r"
  by (simp add: set_hashes_def)

lemma clear_set_hashes: "clear_hashes (set_hashes p orig w r) = clear_hashes r"
  by (simp add: clear_hashes_def set_hashes_def)

lemma backfill_variant_backfilled:
  "backfilled L fs before p
     (case backfill_variant L fs before p of None \<Rightarrow> before | Some h \<Rightarrow> Some h)"
  by (auto simp: backfilled_def backfill_variant_def split: option.splits)

lemma updateDocumentHashes_object:
  "fst (updateDocumentHashes L fs dbf doc st) =
     set_hashes (backfill_variant L fs (processed_content_hash doc) (processed_file_path doc))
       (backfill_variant L fs (content_hash doc) (original_file_path doc))
       (backfill_variant L fs (watermarked_content_hash doc) (watermarked_file_path doc)) doc"
  by (simp add: updateDocumentHashes_def Let_def)

lemma find_map_update:
  assumes "\<And>r. document_hash (f r) = document_hash r"
  shows "find (\<lambda>r. document_hash r = h) (map (\<lambda>r. if document_hash r = h then f r else r) st)
         = map_option f (find (\<lambda>r. document_hash r = h) st)"
  using assms by (induction st) auto

lemma set_hashes_id: "set_hashes None None None r = r"
  by (simp add: set_hashes_def)

lemma updateDocumentHashes_stored:
  assumes "\<not> dbf UpdateHashes"
    and "select_by_document_hash st (document_hash doc) = Some doc"
  shows "select_by_document_hash (snd (updateDocumentHashes L fs dbf doc st)) (document_hash doc)
         = Some (fst (updateDocumentHashes L fs dbf doc st))"
  using assms
  by (auto simp: updateDocumentHashes_def Let_def select_by_document_hash_def
        find_map_update[where f="set_hashes p orig w" for p orig w, OF set_hashes_document_hash]
        set_hashes_id)

text \<open>
  Claim C7. \<open>updateDocumentHashes\<close> always returns. For each of the three variants
  on its own: a hash that is set is left unchanged; a missing hash whose file path is
  set and whose file is readable becomes the digest of that file; a missing hash whose
  file is unreadable (or has no path) stays missing, whatever happens to the other
  two. When the \<open>UPDATE\<close> is not rejected and the object is the row of the table, the
  row of the table afterwards is the object with its new hashes.
\<close>

theorem updateDocumentHashes_backfill:
  "updateDocumentHashes L fs dbf doc st = (doc', st') \<Longrightarrow>
     backfilled L fs (processed_content_hash doc) (processed_file_path doc)
       (processed_content_hash doc')
     \<and> backfilled L fs (content_hash doc) (original_file_path doc) (content_hash doc')
     \<and> backfilled L fs (watermarked_content_hash doc) (watermarked_file_path doc)
         (watermarked_content_hash doc')
     \<and> clear_hashes doc' = clear_hashes doc
     \<and> (\<not> dbf UpdateHashes \<and> select_by_document_hash st (document_hash doc) = Some doc
          \<longrightarrow> select_by_document_hash st' (document_hash doc) = Some doc')"
proof -
  assume a: "updateDocumentHashes L fs dbf doc st = (doc', st')"
  then have d: "doc' = fst (updateDocumentHashes L fs dbf doc st)"
    and s: "st' = snd (updateDocumentHashes L fs dbf doc st)" by simp_all
  have 1: "backfilled L fs (processed_content_hash doc) (processed_file_path doc)
       (processed_content_hash doc')"
    unfolding d updateDocumentHashes_object
    using backfill_variant_backfilled[of L fs "processed_content_hash doc" "processed_file_path doc"]
    by (simp add: set_hashes_def)
  have 2: "backfilled L fs (content_hash doc) (original_file_path doc) (content_hash doc')"
    unfolding d updateDocumentHashes_object
    using backfill_variant_backfilled[of L fs "content_hash doc" "original_file_path doc"]
    by (simp add: set_hashes_def)
  have 3: "backfilled L fs (watermarked_content_hash doc) (watermarked_file_path doc)
         (watermarked_content_hash doc')"
    unfolding d updateDocumentHashes_object
    using backfill_variant_backfilled[of L fs "watermarked_content_hash doc" "watermarked_file_path doc"]
    by (simp add: set_hashes_def)
  have 4: "clear_hashes doc' = clear_hashes doc"
    unfolding d updateDocumentHashes_object by (rule clear_set_hashes)
  have 5: "\<not> dbf UpdateHashes \<and> select_by_document_hash st (document_hash doc) = Some doc
          \<longrightarrow> select_by_document_hash st' (document_hash doc) = Some doc'"
    unfolding d s using updateDocumentHashes_stored by blast
  from 1 2 3 4 5 show ?thesis by blast
qed

text \<open>
  On the example row: the processed hash is kept, the original hash is computed from
  the readable file, and the watermarked hash, whose file is missing, stays absent.
\<close>

theorem updateDocumentHashes_backfill_witness:
  "processed_content_hash (fst (updateDocumentHashes demo_lib verif_fs no_failure
       (demo_row\<lparr>watermarked_file_path := Some ''gone.pdf''\<rparr>) [])) = Some ''0x10''
   \<and> content_hash (fst (updateDocumentHashes demo_lib verif_fs no_failure
       (demo_row\<lparr>watermarked_file_path := Some ''gone.pdf''\<rparr>) [])) = Some ''0x0''
   \<and> watermarked_content_hash (fst (updateDocumentHashes demo_lib verif_fs no_failure
       (demo_row\<lparr>watermarked_file_path := Some ''gone.pdf''\<rparr>) [])) = None"
proof -
  define doc where "doc = demo_row\<lparr>watermarked_file_path := Some ''gone.pdf''\<rparr>"
  obtain doc' st' where u: "updateDocumentHashes demo_lib verif_fs no_failure doc [] = (doc', st')"
    by (cases "updateDocumentHashes demo_lib verif_fs no_failure doc []")
  have f: "processed_content_hash doc = Some ''0x10''" "content_hash doc = None"
      "watermarked_content_hash doc = None" "original_file_path doc = Some ''o.pdf''"
      "watermarked_file_path doc = Some ''gone.pdf''"
    by (simp_all add: doc_def demo_row_def)
  have r: "read_file verif_fs (Some ''o.pdf'') = Some \<lparr>file_bytes = [0], file_pdf = Some demo_pdf\<rparr>"
      "read_file verif_fs (Some ''gone.pdf'') = None"
    by (simp_all add: read_file_def verif_fs_def)
  from updateDocumentHashes_backfill[OF u]
  have "processed_content_hash doc' = Some ''0x10'' \<and> content_hash doc' = Some ''0x0''
     \<and> watermarked_content_hash doc' = None"
    by (simp add: backfilled_def f r truthy_def demo_lib_def demo_digest_def)
  with u show ?thesis unfolding doc_def by simp
qed

lemma updateDocumentHashes_frame:
  "map clear_hashes (snd (updateDocumentHashes L fs dbf doc st)) = map clear_hashes st"
  by (simp add: updateDocumentHashes_def Let_def clear_set_hashes comp_def
        if_distrib[of clear_hashes] cong: if_cong)

lemma integrity_phase_store:
  "integrity_phase L E st buf u doc m w b = (d, s, det) \<Longrightarrow>
     s = snd (updateDocumentHashes L (env_fs E) (env_db_fails E) doc st)"
  by (auto simp: integrity_phase_def Let_def split: prod.splits option.splits if_splits)

lemma verify_resolved_frame:
  "map clear_hashes (fst (verify_resolved L E st upl buf emb w doc)) = map clear_hashes st"
  by (auto simp: verify_resolved_def Let_def updateDocumentHashes_frame
        split: prod.splits dest!: integrity_phase_store)

text \<open>
  Claim C9. Whatever a verification upload answers (400, 500, \<open>NOT_FOUND\<close>,
  \<open>NOT_VERIFIED\<close>, \<open>AUTHENTIC\<close>, \<open>TAMPERED\<close>), the table afterwards has the same rows in
  the same order with every column unchanged except \<open>content_hash\<close>,
  \<open>processed_content_hash\<close> and \<open>watermarked_content_hash\<close>.
\<close>

theorem upload_frame:
  "map clear_hashes (fst (upload L E st req)) = map clear_hashes st"
  by (auto simp: upload_def Let_def verify_resolved_frame split: prod.splits option.splits)

lemma check_blockchain_confirms:
  "fst (check_blockchain ch h) = ledger_confirms ch h"
  by (auto simp: check_blockchain_def bc_verifyDocument_def ledger_confirms_def
        split: option.splits)

lemma verify_resolved_unconfirmed:
  "\<not> ledger_confirms (env_chain E) (document_hash doc) \<Longrightarrow>
     verify_resolved L E st upl buf emb w doc = (st, not_verified_reply doc)"
  using check_blockchain_confirms[of "env_chain E" "document_hash doc"]
  by (auto simp: verify_resolved_def Let_def split: prod.splits)

lemma integrity_phase_object:
  "integrity_phase L E st buf u doc m w b = (d, s, det) \<Longrightarrow> document_hash d = document_hash doc"
  by (auto simp: integrity_phase_def Let_def updateDocumentHashes_def set_hashes_def
        split: prod.splits option.splits if_splits)

lemma verify_resolved_status:
  "verificationStatus (snd (verify_resolved L E st upl buf emb w doc)) =
     Some (if \<not> ledger_confirms (env_chain E) (document_hash doc) then NOT_VERIFIED
           else if authentic (snd (snd (integrity_phase L E st buf (keccak256 L (file_bytes buf))
                     doc (mimetype upl) w (snd (check_blockchain (env_chain E) (document_hash doc))))))
           then AUTHENTIC else TAMPERED)"
  using check_blockchain_confirms[of "env_chain E" "document_hash doc"]
  by (auto simp: verify_resolved_def Let_def not_verified_reply_def verdict_reply_def
        plain_reply_def split: prod.splits)

lemma verify_resolved_reported:
  "\<exists>i. reported (snd (verify_resolved L E st upl buf emb w doc)) = Some i
       \<and> documentHash i = document_hash doc"
  by (auto simp: verify_resolved_def Let_def not_verified_reply_def verdict_reply_def
        plain_reply_def info_of_def split: prod.splits dest: integrity_phase_object)

lemma upload_verdict_confirmed:
  assumes "verificationStatus (snd (upload L E st req)) = Some AUTHENTIC
           \<or> verificationStatus (snd (upload L E st req)) = Some TAMPERED"
  shows "\<exists>i. reported (snd (upload L E st req)) = Some i
           \<and> ledger_confirms (env_chain E) (documentHash i)"
proof -
  from assms obtain upl buf emb w doc where
    u: "upload L E st req = verify_resolved L E st upl buf emb w doc"
    by (auto simp: upload_def Let_def plain_reply_def not_found_reply_def
          split: option.splits prod.splits)
  with assms have "ledger_confirms (env_chain E) (document_hash doc)"
    unfolding u verify_resolved_status by (auto split: if_splits)
  with verify_resolved_reported[of L E st upl buf emb w doc] show ?thesis
    unfolding u by auto
qed

text \<open>
  Claim C1. When the uploaded file resolves to a row and the ledger, asked during this
  request, does not confirm the row's document hash (service absent or not
  initialized, hash not a \<open>bytes32\<close>, call failed, or hash not registered), the
  route answers \<open>NOT_VERIFIED\<close>
  with \<open>authentic\<close> and \<open>tampered\<close> both false and leaves the table as it was: the
  backfill and the comparison are not reached, so the answer is the same whatever the
  stored hashes, the stored files and the cached \<open>verified\<close> flag are. An upload that
  resolves to no row is answered \<open>NOT_FOUND\<close>, a different status. Conversely an
  \<open>AUTHENTIC\<close> or \<open>TAMPERED\<close> answer is only given for a hash the ledger confirmed in
  this request.
\<close>

theorem upload_not_verified:
  "(read_file (env_fs E) (Some (upload_path upl)) = Some buf
      \<and> extract_upload (env_fs E) upl = (emb, wm)
      \<and> resolve_document L (env_db_fails E) st (originalname upl) emb
            (keccak256 L (file_bytes buf)) = Some (Some doc)
      \<and> \<not> ledger_confirms (env_chain E) (document_hash doc)
    \<longrightarrow> upload L E st (Some upl) = (st, not_verified_reply doc)
        \<and> verificationStatus (snd (upload L E st (Some upl))) = Some NOT_VERIFIED
        \<and> verificationStatus (snd (upload L E st (Some upl))) \<noteq> Some NOT_FOUND
        \<and> verificationStatus (snd (upload L E st (Some upl))) \<noteq> Some AUTHENTIC
        \<and> verificationStatus (snd (upload L E st (Some upl))) \<noteq> Some TAMPERED
        \<and> map_option authentic (integrity (snd (upload L E st (Some upl)))) = Some False
        \<and> map_option tampered (integrity (snd (upload L E st (Some upl)))) = Some False)
   \<and> (read_file (env_fs E) (Some (upload_path upl)) = Some buf
      \<and> extract_upload (env_fs E) upl = (emb, wm)
      \<and> resolve_document L (env_db_fails E) st (originalname upl) emb
            (keccak256 L (file_bytes buf)) = Some None
    \<longrightarrow> verificationStatus (snd (upload L E st (Some upl))) = Some NOT_FOUND)
   \<and> (verificationStatus (snd (upload L E st req)) = Some AUTHENTIC
        \<or> verificationStatus (snd (upload L E st req)) = Some TAMPERED
    \<longrightarrow> (\<exists>i. reported (snd (upload L E st req)) = Some i
           \<and> ledger_confirms (env_chain E) (documentHash i)))"
proof (intro conjI impI)
  assume a: "read_file (env_fs E) (Some (upload_path upl)) = Some buf
      \<and> extract_upload (env_fs E) upl = (emb, wm)
      \<and> resolve_document L (env_db_fails E) st (originalname upl) emb
            (keccak256 L (file_bytes buf)) = Some (Some doc)
      \<and> \<not> ledger_confirms (env_chain E) (document_hash doc)"
  then have u: "upload L E st (Some upl) = (st, not_verified_reply doc)"
    by (simp add: upload_def verify_resolved_unconfirmed)
  show "upload L E st (Some upl) = (st, not_verified_reply doc)" by (rule u)
  show "verificationStatus (snd (upload L E st (Some upl))) = Some NOT_VERIFIED"
    "verificationStatus (snd (upload L E st (Some upl))) \<noteq> Some NOT_FOUND"
    "verificationStatus (snd (upload L E st (Some upl))) \<noteq> Some AUTHENTIC"
    "verificationStatus (snd (upload L E st (Some upl))) \<noteq> Some TAMPERED"
    "map_option authentic (integrity (snd (upload L E st (Some upl)))) = Some False"
    "map_option tampered (integrity (snd (upload L E st (Some upl)))) = Some False"
    unfolding u by (simp_all add: not_verified_reply_def plain_reply_def no_details_def)
next
  assume "read_file (env_fs E) (Some (upload_path upl)) = Some buf
      \<and> extract_upload (env_fs E) upl = (emb, wm)
      \<and> resolve_document L (env_db_fails E) st (originalname upl) emb
            (keccak256 L (file_bytes buf)) = Some None"
  then show "verificationStatus (snd (upload L E st (Some upl))) = Some NOT_FOUND"
    by (simp add: upload_def not_found_reply_def plain_reply_def)
next
  assume "verificationStatus (snd (upload L E st req)) = Some AUTHENTIC
        \<or> verificationStatus (snd (upload L E st req)) = Some TAMPERED"
  then show "\<exists>i. reported (snd (upload L E st req)) = Some i
           \<and> ledger_confirms (env_chain E) (documentHash i)"
    by (rule upload_verdict_confirmed)
qed

lemma demo_request:
  "read_file request_fs (Some ''tmp/u1'') = Some processed_copy"
  "extract_upload request_fs processed_upload = (None, False)"
  "keccak256 demo_lib (file_bytes processed_copy) = ''0x10''"
  by (simp_all add: request_fs_def read_file_def extract_upload_def processed_upload_def
        extractHashFromPDF_def extract_doc_def get_text_def demo_pdf_def subject_hash_def
        keywords_hash_def
        subject_marked_def keywords_marked_def demo_lib_def demo_digest_def processed_copy_def)

lemma demo_resolve:
  "resolve_document demo_lib no_failure [demo_row] ''scan.pdf'' None ''0x10'' = Some (Some demo_row)"
  by (simp add: resolve_document_def by_embedded_hash_def by_content_hash_def no_failure_def
        select_by_content_hash_def demo_row_def)

lemma demo_unconfirmed: "\<not> ledger_confirms empty_chain ''0xd1''"
  by (simp add: ledger_confirms_def empty_chain_def contract_lookup_def)

text \<open>
  On the example: the exact bytes of the processed file of a row the ledger does not
  hold are answered \<open>NOT_VERIFIED\<close>, and the table stays as it was.
\<close>

theorem upload_not_verified_witness:
  "processed_content_hash demo_row = Some (keccak256 demo_lib (file_bytes processed_copy))
   \<and> read_file (env_fs unregistered_env) (Some (upload_path processed_upload))
       = Some processed_copy
   \<and> upload demo_lib unregistered_env [demo_row] (Some processed_upload)
       = ([demo_row], not_verified_reply demo_row)
   \<and> verificationStatus (snd (upload demo_lib unregistered_env [demo_row] (Some processed_upload)))
       = Some NOT_VERIFIED"
proof -
  have h: "read_file (env_fs unregistered_env) (Some (upload_path processed_upload))
             = Some processed_copy
         \<and> extract_upload (env_fs unregistered_env) processed_upload = (None, False)
         \<and> resolve_document demo_lib (env_db_fails unregistered_env) [demo_row]
              (originalname processed_upload) None
              (keccak256 demo_lib (file_bytes processed_copy))
            = Some (Some demo_row)
         \<and> \<not> ledger_confirms (env_chain unregistered_env) (document_hash demo_row)"
    using demo_request demo_resolve demo_unconfirmed
    by (simp add: unregistered_env_def processed_upload_def demo_row_def)
  have p: "processed_content_hash demo_row = Some (keccak256 demo_lib (file_bytes processed_copy))"
    by (simp add: demo_request demo_row_def)
  from upload_not_verified[of unregistered_env processed_upload processed_copy None False
         demo_lib "[demo_row]" demo_row] h p
  show ?thesis by blast
qed

lemma wf_issued_hash: "wf_hash demo_hash"
  by (simp add: wf_hash_def demo_hash_def is_hex_def list_all_iff)

lemma demo_registered_upload:
  "upload demo_lib registered_env [issued_row] (Some processed_upload)
     = ([issued_row\<lparr>content_hash := Some ''0x0''\<rparr>],
        verdict_reply (issued_row\<lparr>content_hash := Some ''0x0''\<rparr>)
          ((match_details ''0x10'' (Some ''0x10'') processed)
             \<lparr>blockchainVerified := Some True, blockchainTimestamp := Some 1700000000\<rparr>)
          None False)"
proof -
  define row' where "row' = issued_row\<lparr>content_hash := Some ''0x0''\<rparr>"
  have c: "check_blockchain (env_chain registered_env) demo_hash = (True, Some 1700000000)"
    by (simp add: check_blockchain_def bc_verifyDocument_def registered_env_def empty_chain_def
          contract_lookup_def wf_issued_hash)
  have r: "read_file request_fs (Some ''o.pdf'') = Some \<lparr>file_bytes = [0], file_pdf = Some demo_pdf\<rparr>"
    by (simp add: request_fs_def verif_fs_def read_file_def)
  have b: "updateDocumentHashes demo_lib request_fs no_failure issued_row [issued_row] = (row', [row'])"
    by (simp add: updateDocumentHashes_def backfill_variant_def Let_def r truthy_def row'_def
          issued_row_def demo_row_def set_hashes_def no_failure_def demo_lib_def demo_digest_def)
  have v: "verifyDocumentIntegrity request_fs processed_copy ''0x10'' row' ''application/pdf'' False
           = match_details ''0x10'' (Some ''0x10'') processed"
    by (simp add: verifyDocumentIntegrity_def issued_row_def demo_row_def truthy_def row'_def)
  have s: "select_by_document_hash [row'] (document_hash row') = Some row'"
    by (simp add: select_by_document_hash_def)
  have i: "integrity_phase demo_lib registered_env [issued_row] processed_copy ''0x10'' issued_row
             ''application/pdf'' False (Some 1700000000)
           = (row', [row'],
              (match_details ''0x10'' (Some ''0x10'') processed)
                \<lparr>blockchainVerified := Some True, blockchainTimestamp := Some 1700000000\<rparr>)"
    unfolding integrity_phase_def
    by (simp add: registered_env_def b v s no_failure_def)
  have d: "document_hash issued_row = demo_hash" "mimetype processed_upload = ''application/pdf''"
    by (simp_all add: issued_row_def processed_upload_def)
  have e: "env_fs registered_env = request_fs" "env_db_fails registered_env = no_failure"
    "upload_path processed_upload = ''tmp/u1''" "originalname processed_upload = ''scan.pdf''"
    by (simp_all add: registered_env_def processed_upload_def)
  have q: "resolve_document demo_lib no_failure [issued_row] ''scan.pdf'' None ''0x10''
             = Some (Some issued_row)"
    by (simp add: resolve_document_def by_embedded_hash_def by_content_hash_def no_failure_def
          select_by_content_hash_def issued_row_def demo_row_def)
  show ?thesis
    unfolding upload_def row'_def[symmetric]
    by (simp add: e demo_request q verify_resolved_def c d i)
qed

text \<open>
  On the example: the same upload for a registered row is answered \<open>AUTHENTIC\<close>; the
  request backfills the original content hash, and nothing else of the row changes.
\<close>

theorem upload_frame_witness:
  "fst (upload demo_lib registered_env [issued_row] (Some processed_upload))
     = [issued_row\<lparr>content_hash := Some ''0x0''\<rparr>]
   \<and> verificationStatus (snd (upload demo_lib registered_env [issued_row] (Some processed_upload)))
       = Some AUTHENTIC
   \<and> map clear_hashes (fst (upload demo_lib registered_env [issued_row] (Some processed_upload)))
       = map clear_hashes [issued_row]"
  using upload_frame[of demo_lib registered_env "[issued_row]" "Some processed_upload"]
  by (simp add: demo_registered_upload verdict_reply_def plain_reply_def match_details_def
        no_details_def)

lemma by_embedded_hash_find:
  "\<not> dbf ByEmbeddedHash \<Longrightarrow>
     by_embedded_hash dbf st emb =
       Some (if truthy emb then find (\<lambda>r. Some (document_hash r) = emb) st else None)"
  by (auto simp: by_embedded_hash_def truthy_def select_by_document_hash_def
        split: option.splits intro!: arg_cong[where f="\<lambda>P. find P st"])

lemma by_content_hash_find:
  "\<not> dbf ByContentHash \<Longrightarrow> by_content_hash dbf st u = Some (find (content_match u) st)"
  by (auto simp: by_content_hash_def select_by_content_hash_def content_match_def
        intro!: arg_cong[where f="\<lambda>P. find P st"])

lemma by_embedded_hash_sound:
  "by_embedded_hash dbf st emb = Some (Some d) \<Longrightarrow> truthy emb \<and> Some (document_hash d) = emb"
  by (auto simp: by_embedded_hash_def truthy_def select_by_document_hash_def find_Some_iff
        split: option.splits if_splits)

lemma by_embedded_hash_miss:
  "by_embedded_hash dbf st emb = Some None \<Longrightarrow>
     \<not> truthy emb \<or> find (\<lambda>r. Some (document_hash r) = emb) st = None"
  by (auto simp: by_embedded_hash_def truthy_def select_by_document_hash_def find_None_iff
        split: option.splits if_splits)

lemma by_content_hash_sound:
  "by_content_hash dbf st u = Some (Some d) \<Longrightarrow> content_match u d"
  by (auto simp: by_content_hash_def select_by_content_hash_def content_match_def find_Some_iff
        split: if_splits)

lemma by_content_hash_miss:
  "by_content_hash dbf st u = Some None \<Longrightarrow> find (content_match u) st = None"
  by (auto simp: by_content_hash_def select_by_content_hash_def content_match_def find_None_iff
        split: if_splits)

lemma by_filename_sound:
  "by_filename L dbf st name = Some (Some d) \<Longrightarrow>
     select_by_filename L st (fuzzy_base_name L name) = Some d"
  by (auto simp: by_filename_def split: if_splits)

text \<open>
  Claim C6, as amended. The lookup by the embedded hash compares the candidate with
  \<open>document_hash\<close> only, and is made only for a non-empty embedded hash; the lookup by
  the uploaded content hash compares it with \<open>content_hash\<close>, \<open>processed_content_hash\<close>
  and \<open>watermarked_content_hash\<close>, not with \<open>document_hash\<close>. The first row found in
  that order is the resolved row, and the filename fallback (on the base name without
  its first hex fragment and without a leading \<open>Verified_\<close>) is consulted only when
  both hash lookups have found no row: a row it returns is one that neither hash
  lookup could find.
\<close>

theorem resolve_document_order:
  "(\<not> dbf ByEmbeddedHash \<and> \<not> dbf ByContentHash \<and> \<not> dbf ByFilename \<longrightarrow>
      resolve_document L dbf st name emb u =
        Some (case (if truthy emb then find (\<lambda>r. Some (document_hash r) = emb) st else None) of
                Some d \<Rightarrow> Some d
              | None \<Rightarrow>
                  (case find (content_match u) st of
                     Some d \<Rightarrow> Some d
                   | None \<Rightarrow> select_by_filename L st (fuzzy_base_name L name))))
   \<and> (resolve_document L dbf st name emb u = Some (Some d) \<longrightarrow>
        (truthy emb \<and> Some (document_hash d) = emb)
        \<or> content_match u d
        \<or> ((truthy emb \<longrightarrow> find (\<lambda>r. Some (document_hash r) = emb) st = None)
            \<and> find (content_match u) st = None
            \<and> select_by_filename L st (fuzzy_base_name L name) = Some d))"
proof (intro conjI impI)
  assume "\<not> dbf ByEmbeddedHash \<and> \<not> dbf ByContentHash \<and> \<not> dbf ByFilename"
  then show "resolve_document L dbf st name emb u =
        Some (case (if truthy emb then find (\<lambda>r. Some (document_hash r) = emb) st else None) of
                Some d \<Rightarrow> Some d
              | None \<Rightarrow>
                  (case find (content_match u) st of
                     Some d \<Rightarrow> Some d
                   | None \<Rightarrow> select_by_filename L st (fuzzy_base_name L name)))"
    unfolding resolve_document_def
    by (simp add: by_embedded_hash_find by_content_hash_find by_filename_def
          split: option.splits)
next
  assume a: "resolve_document L dbf st name emb u = Some (Some d)"
  show "(truthy emb \<and> Some (document_hash d) = emb)
        \<or> content_match u d
        \<or> ((truthy emb \<longrightarrow> find (\<lambda>r. Some (document_hash r) = emb) st = None)
            \<and> find (content_match u) st = None
            \<and> select_by_filename L st (fuzzy_base_name L name) = Some d)"
  proof (cases "by_embedded_hash dbf st emb")
    case None
    with a show ?thesis by (simp add: resolve_document_def)
  next
    case (Some e)
    show ?thesis
    proof (cases e)
      case (Some d')
      with a \<open>by_embedded_hash dbf st emb = Some e\<close> by_embedded_hash_sound[of dbf st emb d]
      show ?thesis by (simp add: resolve_document_def)
    next
      case None
      note e = None
      with \<open>by_embedded_hash dbf st emb = Some e\<close>
      have m1: "\<not> truthy emb \<or> find (\<lambda>r. Some (document_hash r) = emb) st = None"
        using by_embedded_hash_miss[of dbf st emb] by simp
      show ?thesis
      proof (cases "by_content_hash dbf st u")
        case None
        with a e \<open>by_embedded_hash dbf st emb = Some e\<close> show ?thesis
          by (simp add: resolve_document_def)
      next
        case (Some c)
        show ?thesis
        proof (cases c)
          case (Some d')
          with a e \<open>by_embedded_hash dbf st emb = Some e\<close> \<open>by_content_hash dbf st u = Some c\<close>
            by_content_hash_sound[of dbf st u d]
          show ?thesis by (simp add: resolve_document_def)
        next
          case None
          with \<open>by_content_hash dbf st u = Some c\<close>
          have m2: "find (content_match u) st = None"
            using by_content_hash_miss[of dbf st u] by simp
          from a e None \<open>by_embedded_hash dbf st emb = Some e\<close> \<open>by_content_hash dbf st u = Some c\<close>
          have "by_filename L dbf st name = Some (Some d)" by (simp add: resolve_document_def)
          then have "select_by_filename L st (fuzzy_base_name L name) = Some d"
            by (rule by_filename_sound)
          with m1 m2 show ?thesis by blast
        qed
      qed
    qed
  qed
qed

lemma demo_like: "like_opt demo_lib (Some ''tor.pdf'') ''%tor%''"
  by (simp add: like_opt_def demo_lib_def)

lemma demo_fuzzy: "fuzzy_base_name demo_lib ''Verified_tor_0x1f.pdf'' = ''tor''"
  by (simp add: fuzzy_base_name_def demo_lib_def demo_basename_def hex_fragment_at_def
        strip_verified_prefix_def is_hex_def)

text \<open>
  On the example table: an upload whose hashes match nothing is resolved by its file
  name, \<open>Verified_tor_0x1f.pdf\<close> giving the base name \<open>tor\<close>; an upload with the
  processed content hash is resolved by that hash.
\<close>

theorem resolve_document_order_witness:
  "fuzzy_base_name demo_lib ''Verified_tor_0x1f.pdf'' = ''tor''
   \<and> resolve_document demo_lib no_failure [demo_row] ''Verified_tor_0x1f.pdf'' None ''0xffff''
       = Some (Some demo_row)
   \<and> find (content_match ''0xffff'') [demo_row] = None
   \<and> resolve_document demo_lib no_failure [demo_row] ''scan.pdf'' None ''0x10''
       = Some (Some demo_row)
   \<and> content_match ''0x10'' demo_row"
proof -
  have n: "\<not> no_failure ByEmbeddedHash \<and> \<not> no_failure ByContentHash \<and> \<not> no_failure ByFilename"
    by (simp add: no_failure_def)
  have f: "find (content_match ''0xffff'') [demo_row] = None"
    "find (content_match ''0x10'') [demo_row] = Some demo_row" "content_match ''0x10'' demo_row"
    by (simp_all add: content_match_def demo_row_def)
  have s: "select_by_filename demo_lib [demo_row] ''tor'' = Some demo_row"
    using demo_like by (simp add: select_by_filename_def demo_row_def)
  from resolve_document_order[of no_failure demo_lib "[demo_row]" "''Verified_tor_0x1f.pdf''"
         None "''0xffff''" demo_row]
       resolve_document_order[of no_failure demo_lib "[demo_row]" "''scan.pdf''"
         None "''0x10''" demo_row] n f s demo_fuzzy
  show ?thesis by (simp add: truthy_def)
qed

text \<open>
  The claim as stated fails on both lookups. The embedded hash \<open>0x10\<close> is the
  processed content hash of the only row, and the lookup by the embedded hash does
  not find the row; the uploaded content hash \<open>0xd1\<close> is its document hash, and the
  lookup by the content hash does not find it. Neither upload resolves.
\<close>

theorem four_fields_counterexample:
  "processed_content_hash demo_row = Some ''0x10''
   \<and> by_embedded_hash no_failure [demo_row] (Some ''0x10'') = Some None
   \<and> resolve_document demo_lib no_failure [demo_row] ''scan.pdf'' (Some ''0x10'') ''0xffff''
       = Some None
   \<and> document_hash demo_row = ''0xd1''
   \<and> by_content_hash no_failure [demo_row] ''0xd1'' = Some None
   \<and> resolve_document demo_lib no_failure [demo_row] ''scan.pdf'' None ''0xd1'' = Some None"
  by (simp add: resolve_document_def by_embedded_hash_def by_content_hash_def by_filename_def
        no_failure_def select_by_document_hash_def select_by_content_hash_def
        select_by_filename_def fuzzy_base_name_def demo_lib_def demo_basename_def
        hex_fragment_at_def strip_verified_prefix_def is_hex_def like_opt_def demo_row_def)

lemma contract_register_holds:
  "contract_lookup (contract_register l h t) h \<noteq> None"
  by (simp add: contract_lookup_def contract_register_def)

lemma contract_register_mono:
  "contract_lookup l k \<noteq> None \<Longrightarrow> contract_lookup (contract_register l h t) k \<noteq> None"
  by (simp add: contract_lookup_def contract_register_def)

lemma bc_registerDocument_ledger:
  assumes "bc_registerDocument L ch ce h = Some (ch', r)"
  shows "(contract_lookup (chain_ledger ch) k \<noteq> None \<longrightarrow> contract_lookup (chain_ledger ch') k \<noteq> None)
       \<and> (starts_with h ''0x'' \<and> r \<noteq> None \<longrightarrow> contract_lookup (chain_ledger ch') h \<noteq> None)"
  using assms contract_register_holds contract_register_mono
  by (auto simp: bc_registerDocument_def Let_def split: if_splits)

lemma mark_verified_rows:
  "r' \<in> set (mark_verified tx wp h st) \<Longrightarrow>
     (\<exists>r \<in> set st. document_hash r' = document_hash r
        \<and> (verified r' \<longrightarrow> verified r \<or> document_hash r = h))"
  by (auto simp: mark_verified_def split: if_splits option.splits)

lemma finalize_registered_cases:
  assumes "finalize_registered L dbf ce w h = (w', rep)"
  shows "(w_store w' = w_store w
          \<or> (\<exists>tx wp ch'. bc_registerDocument L (w_chain w) ce h = Some (ch', Some tx)
                \<and> w_chain w' = ch' \<and> fin_status rep = 200
                \<and> w_store w' = mark_verified tx wp h (w_store w)))
       \<and> (w_chain w' = w_chain w
          \<or> (\<exists>r. bc_registerDocument L (w_chain w) ce h = Some (w_chain w', r)))"
  using assms
  by (auto simp: finalize_registered_def Let_def fin_error_def
        split: if_splits option.splits prod.splits)

lemma finalize_simulated_cases:
  assumes "finalize_simulated L dbf ce w h = (w', rep)"
  shows "w_store w' = w_store w \<and> w_chain w' = w_chain w \<and> fin_status rep = 500"
proof (cases "dbf SelectForFinalize")
  case True
  with assms show ?thesis by (auto simp: finalize_simulated_def fin_error_def)
next
  case False
  note nf = this
  show ?thesis
  proof (cases "select_by_document_hash (w_store w) h")
    case None
    with assms nf show ?thesis by (auto simp: finalize_simulated_def fin_error_def)
  next
    case (Some doc)
    note sd = this
    show ?thesis
    proof (cases "createWatermarkedDocument L (w_fs w) (processed_file_path doc) h
                        \<lparr>wm_txHash = ''0x'' @ sim_digits ce,
                         wm_block_number = nat_to_string (sim_block ce)\<rparr>")
      case None
      with assms nf sd show ?thesis by (auto simp: finalize_simulated_def fin_error_def)
    next
      case (Some p)
      then obtain fs' wp where "createWatermarkedDocument L (w_fs w) (processed_file_path doc) h
                        \<lparr>wm_txHash = ''0x'' @ sim_digits ce,
                         wm_block_number = nat_to_string (sim_block ce)\<rparr> = Some (fs', wp)"
        by (cases p) simp
      with assms nf sd show ?thesis by (auto simp: finalize_simulated_def fin_error_def)
    qed
  qed
qed

lemma finalize_cases:
  assumes "finalize L dbf ce w hp = (w', rep)"
  shows "w_store w' = w_store w \<and> w_chain w' = w_chain w
       \<or> (\<exists>h. hp = Some h \<and> chain_present (w_chain w) \<and> chain_initialized (w_chain w)
              \<and> finalize_registered L dbf ce w h = (w', rep))"
proof (cases hp)
  case None
  with assms show ?thesis by (auto simp: finalize_def)
next
  case (Some h)
  show ?thesis
  proof (cases "h = []")
    case True
    with assms Some show ?thesis by (auto simp: finalize_def)
  next
    case False
    note ne = this
    show ?thesis
    proof (cases "chain_present (w_chain w) \<and> chain_initialized (w_chain w)")
      case True
      with assms Some ne show ?thesis by (simp add: finalize_def)
    next
      case False
      with assms Some ne have "finalize_simulated L dbf ce w h = (w', rep)"
        by (auto simp: finalize_def)
      from finalize_simulated_cases[OF this] show ?thesis by simp
    qed
  qed
qed

lemma bc_registerDocument_wf:
  "bc_registerDocument L ch ce h = Some (ch', Some tx) \<Longrightarrow> starts_with h ''0x'' \<Longrightarrow> wf_hash h"
  by (auto simp: bc_registerDocument_def Let_def split: if_splits)

lemma finalize_ledger_mono:
  assumes "finalize_registered L dbf ce w h = (w', rep)" and "ledger_holds w k"
  shows "ledger_holds w' k"
proof -
  from finalize_registered_cases[OF assms(1)]
  have "w_chain w' = w_chain w
          \<or> (\<exists>r. bc_registerDocument L (w_chain w) ce h = Some (w_chain w', r))" by blast
  with assms(2) show ?thesis
    using bc_registerDocument_ledger[of L "w_chain w" ce h "w_chain w'"]
    by (auto simp: ledger_holds_def)
qed

lemma finalize_registered_backed:
  assumes f: "finalize_registered L dbf ce w h = (w', rep)"
    and x: "starts_with h ''0x''" and b: "verified_backed w"
  shows "verified_backed w'"
proof -
  have "verified r' \<longrightarrow> ledger_holds w' (document_hash r')" if r': "r' \<in> set (w_store w')" for r'
  proof
    assume v: "verified r'"
    from finalize_registered_cases[OF f]
    consider "w_store w' = w_store w"
      | tx wp ch' where "bc_registerDocument L (w_chain w) ce h = Some (ch', Some tx)"
          "w_chain w' = ch'" "w_store w' = mark_verified tx wp h (w_store w)"
      by blast
    then show "ledger_holds w' (document_hash r')"
    proof cases
      case 1
      with r' v b have "ledger_holds w (document_hash r')"
        by (auto simp: verified_backed_def list_all_iff)
      then show ?thesis by (rule finalize_ledger_mono[OF f])
    next
      case 2
      from r' 2(3) mark_verified_rows[of r' tx wp h "w_store w"] v
      obtain r where r: "r \<in> set (w_store w)" "document_hash r' = document_hash r"
        "verified r \<or> document_hash r = h" by auto
      from r(3) show ?thesis
      proof
        assume "verified r"
        with r b have "ledger_holds w (document_hash r')"
          by (auto simp: verified_backed_def list_all_iff)
        then show ?thesis by (rule finalize_ledger_mono[OF f])
      next
        assume "document_hash r = h"
        with r(2) 2(1,2) x bc_registerDocument_ledger[of L "w_chain w" ce h ch' "Some tx" h]
        show ?thesis by (simp add: ledger_holds_def)
      qed
    qed
  qed
  then show ?thesis by (simp add: verified_backed_def list_all_iff)
qed

text \<open>
  Claim C5, as amended. No finalize request, in either branch, sets \<open>verified\<close> to
  true without a mined registration of that hash: for a document hash of the \<open>0x\<close>
  form (every hash the routes store is a Keccak digest), a request leaves every set
  \<open>verified\<close> flag backed by the ledger, and when it changes the table at all the
  blockchain service was present and initialized, the answer is 200, the hash is a
  \<open>bytes32\<close>, the ledger holds it, and exactly the rows with that hash were marked.
  The simulation branch, as written, answers 500 and changes no row. The converse
  direction is not maintained: a hash the ledger holds may belong to a row whose flag
  is not set.
\<close>

theorem finalize_verified_backed:
  "(case hp of None \<Rightarrow> True | Some h \<Rightarrow> starts_with h ''0x'')
     \<and> verified_backed w \<and> finalize L dbf ce w hp = (w', rep)
   \<longrightarrow> verified_backed w'
       \<and> (w_store w' = w_store w
          \<or> (\<exists>h tx wp. hp = Some h \<and> fin_status rep = 200
                \<and> chain_present (w_chain w) \<and> chain_initialized (w_chain w)
                \<and> wf_hash h \<and> ledger_holds w' h
                \<and> w_store w' = mark_verified tx wp h (w_store w)))"
proof
  assume a: "(case hp of None \<Rightarrow> True | Some h \<Rightarrow> starts_with h ''0x'')
     \<and> verified_backed w \<and> finalize L dbf ce w hp = (w', rep)"
  then have b: "verified_backed w" and fin: "finalize L dbf ce w hp = (w', rep)" by simp_all
  from finalize_cases[OF fin]
  consider "w_store w' = w_store w" "w_chain w' = w_chain w"
    | h where "hp = Some h" "chain_present (w_chain w)" "chain_initialized (w_chain w)"
        "finalize_registered L dbf ce w h = (w', rep)"
    by blast
  then show "verified_backed w'
       \<and> (w_store w' = w_store w
          \<or> (\<exists>h tx wp. hp = Some h \<and> fin_status rep = 200
                \<and> chain_present (w_chain w) \<and> chain_initialized (w_chain w)
                \<and> wf_hash h \<and> ledger_holds w' h
                \<and> w_store w' = mark_verified tx wp h (w_store w)))"
  proof cases
    case 1
    with b show ?thesis by (simp add: verified_backed_def ledger_holds_def)
  next
    case 2
    with a have x: "starts_with h ''0x''" by simp
    from finalize_registered_backed[OF 2(4) x b] have 3: "verified_backed w'" .
    from finalize_registered_cases[OF 2(4)]
    consider "w_store w' = w_store w"
      | tx wp ch' where "bc_registerDocument L (w_chain w) ce h = Some (ch', Some tx)"
          "w_chain w' = ch'" "fin_status rep = 200"
          "w_store w' = mark_verified tx wp h (w_store w)"
      by blast
    then show ?thesis
    proof cases
      case 1
      with 3 show ?thesis by simp
    next
      case 2
      note r = this
      from r(1) x have wf: "wf_hash h" by (rule bc_registerDocument_wf)
      from r(1,2) x bc_registerDocument_ledger[of L "w_chain w" ce h ch' "Some tx" h]
      have "ledger_holds w' h" by (simp add: ledger_holds_def)
      with 3 wf r \<open>hp = Some h\<close> \<open>chain_present (w_chain w)\<close> \<open>chain_initialized (w_chain w)\<close>
      show ?thesis by blast
    qed
  qed
qed

lemma wf_registered_hash: "wf_hash demo_hash"
  by (simp add: wf_hash_def demo_hash_def is_hex_def list_all_iff)

lemma demo_hash_form: "starts_with demo_hash ''0x''" "demo_hash \<noteq> []"
  by (simp_all add: demo_hash_def)

lemma demo_register:
  "bc_registerDocument demo_lib empty_chain demo_chance demo_hash
     = Some (empty_chain\<lparr>chain_ledger := [(demo_hash, 1700000000)]\<rparr>, Some demo_tx)"
  by (simp add: bc_registerDocument_def empty_chain_def demo_chance_def contract_register_def
        wf_registered_hash demo_hash_form)

lemma demo_watermarking:
  "createWatermarkedDocument demo_lib verif_fs (Some ''p.pdf'') h wm \<noteq> None"
  by (simp add: createWatermarkedDocument_def read_file_def verif_fs_def Let_def demo_lib_def
        demo_extname_def lower_char_def addWatermarkToPDF_def write_file_def)

lemma demo_issued:
  "select_by_document_hash [issued_row] demo_hash = Some issued_row"
  "\<not> verified issued_row" "processed_file_path issued_row = Some ''p.pdf''"
  "document_hash issued_row = demo_hash"
  by (simp_all add: select_by_document_hash_def issued_row_def demo_row_def)

lemma demo_finalize:
  "\<exists>fs' p. finalize demo_lib no_failure demo_chance demo_world (Some demo_hash)
     = (\<lparr>w_store = mark_verified demo_tx (Some p) demo_hash [issued_row], w_fs = fs',
         w_chain = empty_chain\<lparr>chain_ledger := [(demo_hash, 1700000000)]\<rparr>\<rparr>,
        \<lparr>fin_status = 200, fin_verified = True, fin_transactionHash = Some demo_tx,
         fin_watermarkedFile = Some p\<rparr>)"
proof -
  obtain fs' p where c: "createWatermarkedDocument demo_lib verif_fs (Some ''p.pdf'') demo_hash
     \<lparr>wm_txHash = demo_tx, wm_block_number = ''undefined''\<rparr> = Some (fs', p)"
    using demo_watermarking by fastforce
  have e: "chain_present empty_chain" "chain_initialized empty_chain"
    by (simp_all add: empty_chain_def)
  have "finalize demo_lib no_failure demo_chance demo_world (Some demo_hash)
     = (\<lparr>w_store = mark_verified demo_tx (Some p) demo_hash [issued_row], w_fs = fs',
         w_chain = empty_chain\<lparr>chain_ledger := [(demo_hash, 1700000000)]\<rparr>\<rparr>,
        \<lparr>fin_status = 200, fin_verified = True, fin_transactionHash = Some demo_tx,
         fin_watermarkedFile = Some p\<rparr>)"
    by (simp add: finalize_def finalize_registered_def demo_world_def e demo_issued
          demo_hash_form demo_register c no_failure_def)
  then show ?thesis by blast
qed

text \<open>
  On the example world: with the service the row is registered, its flag is set and
  the ledger holds its hash; without the service the request changes no row.
\<close>

theorem finalize_verified_backed_witness:
  "starts_with demo_hash ''0x'' \<and> verified_backed demo_world \<and> verified_backed offline_world
   \<and> verified_backed (fst (finalize demo_lib no_failure demo_chance demo_world (Some demo_hash)))
   \<and> list_all verified
        (w_store (fst (finalize demo_lib no_failure demo_chance demo_world (Some demo_hash))))
   \<and> ledger_holds (fst (finalize demo_lib no_failure demo_chance demo_world (Some demo_hash)))
        demo_hash
   \<and> verified_backed (fst (finalize demo_lib no_failure demo_chance offline_world (Some demo_hash)))
   \<and> w_store (fst (finalize demo_lib no_failure demo_chance offline_world (Some demo_hash)))
       = [issued_row]"
proof -
  obtain fs' p where f: "finalize demo_lib no_failure demo_chance demo_world (Some demo_hash)
     = (\<lparr>w_store = mark_verified demo_tx (Some p) demo_hash [issued_row], w_fs = fs',
         w_chain = empty_chain\<lparr>chain_ledger := [(demo_hash, 1700000000)]\<rparr>\<rparr>,
        \<lparr>fin_status = 200, fin_verified = True, fin_transactionHash = Some demo_tx,
         fin_watermarkedFile = Some p\<rparr>)"
    using demo_finalize by blast
  obtain w2 r2 where g: "finalize demo_lib no_failure demo_chance offline_world (Some demo_hash)
     = (w2, r2)"
    by (cases "finalize demo_lib no_failure demo_chance offline_world (Some demo_hash)")
  have h: "starts_with demo_hash ''0x''" "verified_backed demo_world" "verified_backed offline_world"
    by (simp_all add: demo_hash_form demo_world_def offline_world_def verified_backed_def
          demo_issued)
  from finalize_verified_backed[of "Some demo_hash" demo_world demo_lib no_failure demo_chance] h f
  have 1: "verified_backed (fst (finalize demo_lib no_failure demo_chance demo_world (Some demo_hash)))"
    by simp
  have 2: "list_all verified
        (w_store (fst (finalize demo_lib no_failure demo_chance demo_world (Some demo_hash))))"
    unfolding f by (simp add: mark_verified_def demo_issued)
  have 3: "ledger_holds
        (fst (finalize demo_lib no_failure demo_chance demo_world (Some demo_hash))) demo_hash"
    unfolding f by (simp add: ledger_holds_def contract_lookup_def)
  from finalize_verified_backed[of "Some demo_hash" offline_world demo_lib no_failure demo_chance
         w2 r2] h g
  have 4: "verified_backed w2" and 5: "w_store w2 = w_store offline_world
      \<or> (chain_present (w_chain offline_world) \<and> w_store w2 \<noteq> w_store offline_world)"
    by auto
  have "\<not> chain_present (w_chain offline_world)" "w_store offline_world = [issued_row]"
    by (simp_all add: offline_world_def demo_world_def)
  with 5 have 6: "w_store w2 = [issued_row]" by auto
  from 1 2 3 4 6 h show ?thesis unfolding g by simp
qed

text \<open>
  The claim as stated fails: the registration and the \<open>UPDATE\<close> are two steps. When
  the \<open>UPDATE\<close> that follows a mined registration is rejected, the request answers 500
  and the ledger holds the hash of a row whose \<open>verified\<close> flag stays unset.
\<close>

theorem verified_iff_ledger_counterexample:
  "cache_coherent demo_world
   \<and> wf_hash demo_hash
   \<and> \<not> cache_coherent (fst (finalize demo_lib update_fails demo_chance demo_world (Some demo_hash)))
   \<and> ledger_holds (fst (finalize demo_lib update_fails demo_chance demo_world (Some demo_hash)))
        demo_hash
   \<and> \<not> list_ex verified
        (w_store (fst (finalize demo_lib update_fails demo_chance demo_world (Some demo_hash))))
   \<and> fin_status (snd (finalize demo_lib update_fails demo_chance demo_world (Some demo_hash)))
       = 500"
proof -
  obtain fs' p where c: "createWatermarkedDocument demo_lib verif_fs (Some ''p.pdf'') demo_hash
     \<lparr>wm_txHash = demo_tx, wm_block_number = ''undefined''\<rparr> = Some (fs', p)"
    using demo_watermarking by fastforce
  have e: "chain_present empty_chain" "chain_initialized empty_chain"
    by (simp_all add: empty_chain_def)
  have f1: "finalize demo_lib update_fails demo_chance demo_world (Some demo_hash)
     = (\<lparr>w_store = [issued_row], w_fs = fs',
         w_chain = empty_chain\<lparr>chain_ledger := [(demo_hash, 1700000000)]\<rparr>\<rparr>, fin_error 500)"
    by (simp add: finalize_def finalize_registered_def demo_world_def e demo_issued
          demo_hash_form demo_register c update_fails_def)
  have 1: "cache_coherent demo_world"
    by (simp add: cache_coherent_def demo_world_def demo_issued ledger_holds_def empty_chain_def
          contract_lookup_def)
  have 2: "\<not> cache_coherent (fst (finalize demo_lib update_fails demo_chance demo_world (Some demo_hash)))"
    "ledger_holds (fst (finalize demo_lib update_fails demo_chance demo_world (Some demo_hash))) demo_hash"
    "\<not> list_ex verified
        (w_store (fst (finalize demo_lib update_fails demo_chance demo_world (Some demo_hash))))"
    "fin_status (snd (finalize demo_lib update_fails demo_chance demo_world (Some demo_hash))) = 500"
    unfolding f1
    by (simp_all add: cache_coherent_def demo_issued ledger_holds_def contract_lookup_def
          fin_error_def)
  from 1 2 wf_registered_hash show ?thesis by blast
qed

lemma or_default_cases:
  "f \<noteq> Null \<Longrightarrow> or_default f [] = (case f of Undefined \<Rightarrow> Value [] | Value v \<Rightarrow> Value v)"
  by (cases f) (simp_all add: or_default_def)

lemma empty_blocks: "courses_block [] = []" "grades_block [] = []"
  by (simp_all add: courses_block_def grades_block_def)

lemma generate_default_collections:
  "generateDocumentContent di (D\<lparr>dd_courseData := or_default (dd_courseData D) [],
                                  dd_grades := or_default (dd_grades D) []\<rparr>)
     = generateDocumentContent di D"
  if "dd_courseData D \<noteq> Null" "dd_grades D \<noteq> Null"
  using that
  by (cases "dd_courseData D"; cases "dd_grades D")
     (auto simp: generateDocumentContent_def or_default_def empty_blocks scalar_lines_def
        split: option.splits date_input.splits)

text \<open>
  Claim C8, as amended. The Word-template producer encodes with the PDF producer's
  encoder, after putting the current time in place of the date of issue and the
  template's institution (or \<open>Institution\<close>) in place of a missing institution name.
  So the two producers give the same string for an input whose date of issue is that
  instant, whose institution name is set and whose collections are not \<open>null\<close>. In
  both producers an empty or missing course collection adds nothing to the output,
  whatever the grades and the date of issue: the encoding is the five scalar lines
  followed directly by the \<open>GRADES:\<close> block, if there are grades.
\<close>

theorem encoders_agree:
  "(dd_dateIssued sd = DateInstance (Some now) \<and> js_truthy (dd_institutionName sd)
      \<and> dd_courseData sd \<noteq> Null \<and> dd_grades sd \<noteq> Null
    \<longrightarrow> createStandardizedContent di institution sd now = generateDocumentContent di sd)
   \<and> (dd_courseData D = Value [] \<or> dd_courseData D = Undefined
    \<longrightarrow> generateDocumentContent di D
          = (case (case dd_dateIssued D of DateInstance s \<Rightarrow> s | DateValue v \<Rightarrow> di v) of
               None \<Rightarrow> None
             | Some stamp \<Rightarrow>
                 (case dd_grades D of
                    Null \<Rightarrow> None
                  | Undefined \<Rightarrow> Some (scalar_lines D stamp)
                  | Value gs \<Rightarrow> Some (scalar_lines D stamp @ grades_block gs))))
   \<and> (dd_courseData sd = Value [] \<or> dd_courseData sd = Undefined \<or> dd_courseData sd = Null
    \<longrightarrow> createStandardizedContent di institution sd now
          = Some (scalar_lines (template_document_data institution sd now) now
                  @ (case dd_grades sd of Value gs \<Rightarrow> grades_block gs | _ \<Rightarrow> [])))"
proof (intro conjI impI)
  assume a: "dd_dateIssued sd = DateInstance (Some now) \<and> js_truthy (dd_institutionName sd)
      \<and> dd_courseData sd \<noteq> Null \<and> dd_grades sd \<noteq> Null"
  then have "template_document_data institution sd now
      = sd\<lparr>dd_courseData := or_default (dd_courseData sd) [],
            dd_grades := or_default (dd_grades sd) []\<rparr>"
    by (simp add: template_document_data_def)
  with a show "createStandardizedContent di institution sd now = generateDocumentContent di sd"
    by (simp add: createStandardizedContent_def generate_default_collections)
next
  assume "dd_courseData D = Value [] \<or> dd_courseData D = Undefined"
  then show "generateDocumentContent di D
          = (case (case dd_dateIssued D of DateInstance s \<Rightarrow> s | DateValue v \<Rightarrow> di v) of
               None \<Rightarrow> None
             | Some stamp \<Rightarrow>
                 (case dd_grades D of
                    Null \<Rightarrow> None
                  | Undefined \<Rightarrow> Some (scalar_lines D stamp)
                  | Value gs \<Rightarrow> Some (scalar_lines D stamp @ grades_block gs)))"
    by (auto simp: generateDocumentContent_def empty_blocks
          split: option.splits js_field.splits)
next
  assume c: "dd_courseData sd = Value [] \<or> dd_courseData sd = Undefined \<or> dd_courseData sd = Null"
  then have 1: "dd_courseData (template_document_data institution sd now) = Value []"
    by (auto simp: template_document_data_def or_default_def)
  have 2: "dd_dateIssued (template_document_data institution sd now) = DateInstance (Some now)"
    by (simp add: template_document_data_def)
  have 3: "dd_grades (template_document_data institution sd now)
             = Value (case dd_grades sd of Value gs \<Rightarrow> gs | _ \<Rightarrow> [])"
    by (cases "dd_grades sd") (simp_all add: template_document_data_def or_default_def)
  show "createStandardizedContent di institution sd now
          = Some (scalar_lines (template_document_data institution sd now) now
                  @ (case dd_grades sd of Value gs \<Rightarrow> grades_block gs | _ \<Rightarrow> []))"
    unfolding createStandardizedContent_def generateDocumentContent_def
    by (cases "dd_grades sd") (simp_all add: 1 2 3 empty_blocks)
qed

text \<open>
  On the examples: encoded at the instant of its date of issue the data gives the same
  five lines through both producers; with one grade the \<open>GRADES:\<close> block follows the
  five lines directly.
\<close>

theorem encoders_agree_witness:
  "createStandardizedContent no_date JUndefined demo_data ''2024-01-15T00:00:00.000Z''
     = generateDocumentContent no_date demo_data
   \<and> generateDocumentContent no_date graded_data
     = Some (''DOCUMENT_TYPE:TOR'' @ nl @ ''STUDENT_ID:2021-00001'' @ nl
            @ ''STUDENT_NAME:Ana Cruz'' @ nl @ ''INSTITUTION:PUP'' @ nl
            @ ''DATE_ISSUED:2024-01-15T00:00:00.000Z'' @ nl
            @ ''GRADES:'' @ nl @ ''Math: 1.25'' @ nl)
   \<and> createStandardizedContent no_date JUndefined demo_data ''2024-01-15T00:00:00.000Z''
     = Some (''DOCUMENT_TYPE:TOR'' @ nl @ ''STUDENT_ID:2021-00001'' @ nl
            @ ''STUDENT_NAME:Ana Cruz'' @ nl @ ''INSTITUTION:PUP'' @ nl
            @ ''DATE_ISSUED:2024-01-15T00:00:00.000Z'' @ nl)"
proof -
  note t = encoders_agree[where sd = demo_data and now = "''2024-01-15T00:00:00.000Z''"
          and D = graded_data and di = no_date and institution = JUndefined]
  have h1: "dd_dateIssued demo_data = DateInstance (Some ''2024-01-15T00:00:00.000Z'')
      \<and> js_truthy (dd_institutionName demo_data)
      \<and> dd_courseData demo_data \<noteq> Null \<and> dd_grades demo_data \<noteq> Null"
    by (simp add: demo_data_def js_truthy_def)
  have h2: "dd_courseData graded_data = Value [] \<or> dd_courseData graded_data = Undefined"
    by (simp add: graded_data_def demo_data_def)
  have h3: "dd_courseData demo_data = Value [] \<or> dd_courseData demo_data = Undefined
      \<or> dd_courseData demo_data = Null"
    by (simp add: demo_data_def)
  from t h1 have 1: "createStandardizedContent no_date JUndefined demo_data
      ''2024-01-15T00:00:00.000Z'' = generateDocumentContent no_date demo_data"
    by blast
  from t h2 have "generateDocumentContent no_date graded_data
          = (case (case dd_dateIssued graded_data of DateInstance s \<Rightarrow> s
                   | DateValue v \<Rightarrow> no_date v) of
               None \<Rightarrow> None
             | Some stamp \<Rightarrow>
                 (case dd_grades graded_data of
                    Null \<Rightarrow> None
                  | Undefined \<Rightarrow> Some (scalar_lines graded_data stamp)
                  | Value gs \<Rightarrow> Some (scalar_lines graded_data stamp @ grades_block gs)))"
    by blast
  then have 2: "generateDocumentContent no_date graded_data
     = Some (''DOCUMENT_TYPE:TOR'' @ nl @ ''STUDENT_ID:2021-00001'' @ nl
            @ ''STUDENT_NAME:Ana Cruz'' @ nl @ ''INSTITUTION:PUP'' @ nl
            @ ''DATE_ISSUED:2024-01-15T00:00:00.000Z'' @ nl
            @ ''GRADES:'' @ nl @ ''Math: 1.25'' @ nl)"
    by (simp add: graded_data_def demo_data_def scalar_lines_def js_string_def grades_block_def)
  from t h3 have "createStandardizedContent no_date JUndefined demo_data
       ''2024-01-15T00:00:00.000Z''
     = Some (scalar_lines (template_document_data JUndefined demo_data
                ''2024-01-15T00:00:00.000Z'') ''2024-01-15T00:00:00.000Z''
             @ (case dd_grades demo_data of Value gs \<Rightarrow> grades_block gs | _ \<Rightarrow> []))"
    by blast
  then have 3: "createStandardizedContent no_date JUndefined demo_data
       ''2024-01-15T00:00:00.000Z''
     = Some (''DOCUMENT_TYPE:TOR'' @ nl @ ''STUDENT_ID:2021-00001'' @ nl
            @ ''STUDENT_NAME:Ana Cruz'' @ nl @ ''INSTITUTION:PUP'' @ nl
            @ ''DATE_ISSUED:2024-01-15T00:00:00.000Z'' @ nl)"
    by (simp add: demo_data_def scalar_lines_def js_string_def template_document_data_def
          js_truthy_def)
  from 1 2 3 show ?thesis by blast
qed

text \<open>
  The claim as stated fails: for the same issuance data, encoded at an instant other
  than its date of issue, the Word-template producer's string is not the PDF
  producer's; and the Word-template producer gives two different strings for the same
  data at two instants.
\<close>

theorem encoders_differ_counterexample:
  "createStandardizedContent no_date JUndefined demo_data ''2025-03-01T08:00:00.000Z''
     \<noteq> generateDocumentContent no_date demo_data
   \<and> createStandardizedContent no_date JUndefined demo_data ''2025-03-01T08:00:00.000Z''
     \<noteq> createStandardizedContent no_date JUndefined demo_data ''2025-03-01T08:00:01.000Z''"
  by (simp add: createStandardizedContent_def generateDocumentContent_def
        template_document_data_def or_default_def demo_data_def js_truthy_def scalar_lines_def
        js_string_def courses_block_def nl_def)

end
